theory Spec2Isabelle
  imports Complex_Main "HOL-Library.Char_ord" "HOL-Library.List_Lexorder"
begin

section \<open>Planet image extraction: search, order, poll, package\<close>

text \<open>
  A shallow embedding of \<^verbatim>\<open>Planet_imagery_extraction.py\<close>. Calls into libraries
  (shapely, requests, the Planet REST API) are inputs of the model: the geometry library is
  a record of functions, the provider is a record of response functions. Every
  \<^verbatim>\<open>raise\<close> of the source is an \<open>Inl\<close> branch, and a polling loop that never ends is
  the value \<open>None\<close>. The file system takes every directory and file the run creates.
\<close>

subsection \<open>Errors\<close>

text \<open>The Python exception classes the source raises or lets through, with their message.\<close>

datatype error =
    ValueError string
  | RuntimeError string
  | KeyError string
  | IndexError string
  | StructError string
  | HTTPError nat

subsection \<open>Data models\<close>

record SearchParams =
  start_date :: string
  end_date :: string
  max_cloud_cover :: real
  min_nadir :: real
  max_nadir :: real
  instruments :: "string list"
  item_types :: "string list"
  result_limit :: int

record Config =
  api_key :: string
  data_url :: string
  orders_url :: string
  poll_interval_s :: nat
  download_dir :: string
  timeout_s :: nat

subsection \<open>The geometry library\<close>

text \<open>
  The attributes and operations of shapely that the source calls, on a geometry type
  \<open>'g\<close> with areas in a linear order \<open>'a\<close>: \<^verbatim>\<open>geom.is_empty\<close>,
  \<^verbatim>\<open>geom.geom_type\<close>, \<^verbatim>\<open>unary_union(geom)\<close>, \<^verbatim>\<open>geom.geoms\<close>,
  \<^verbatim>\<open>p.area\<close>, \<^verbatim>\<open>poly.is_valid\<close>, \<^verbatim>\<open>poly.buffer(0)\<close> and \<^verbatim>\<open>geom.wkt\<close>.
\<close>

record ('g, 'a) shapely =
  geom_is_empty :: "'g \<Rightarrow> bool"
  geom_type :: "'g \<Rightarrow> string"
  unary_union :: "'g \<Rightarrow> 'g"
  geoms :: "'g \<Rightarrow> 'g list"
  area :: "'g \<Rightarrow> 'a"
  is_valid :: "'g \<Rightarrow> bool"
  buffer_zero :: "'g \<Rightarrow> 'g"
  wkt :: "'g \<Rightarrow> string"

text \<open>
  Python's \<^verbatim>\<open>max(xs, key=f)\<close>: the running maximum is replaced only by a strictly
  greater key, so the first maximal element is returned; an empty sequence raises
  \<^verbatim>\<open>ValueError\<close>.
\<close>

fun max_by :: "('b \<Rightarrow> 'a::linorder) \<Rightarrow> 'b \<Rightarrow> 'b list \<Rightarrow> 'b" where
  "max_by key best [] = best"
| "max_by key best (x # xs) = max_by key (if key best < key x then x else best) xs"

definition py_max :: "('b \<Rightarrow> 'a::linorder) \<Rightarrow> 'b list \<Rightarrow> error + 'b" where
  "py_max key xs =
     (case xs of
        [] \<Rightarrow> Inl (ValueError ''max() arg is an empty sequence'')
      | x # rest \<Rightarrow> Inr (max_by key x rest))"

definition validate_geometry :: "('g, 'a::linorder) shapely \<Rightarrow> 'g \<Rightarrow> error + 'g" where
  "validate_geometry L geom =
     (if geom_is_empty L geom then Inl (ValueError ''AOI geometry is empty.'')
      else
        case (if geom_type L geom = ''Polygon'' then Inr geom
              else
                let merged = unary_union L geom in
                if geom_type L merged = ''Polygon'' then Inr merged
                else if geom_type L merged = ''MultiPolygon''
                     then py_max (area L) (geoms L merged)
                else Inl (ValueError (''Unsupported geometry type for AOI: '' @ geom_type L geom)))
        of
          Inl e \<Rightarrow> Inl e
        | Inr poly \<Rightarrow>
            if \<not> is_valid L poly then
              (let fixed = buffer_zero L poly in
               if \<not> is_valid L fixed
               then Inl (ValueError ''AOI polygon is invalid and could not be fixed.'')
               else Inr fixed)
            else Inr poly)"

subsection \<open>A concrete geometry library: regions of unit grid cells\<close>

text \<open>
  An instance of the library interface on which the definitions can be run: a geometry is
  a list of parts, each part a list of unit cells of the integer grid. One part is a
  Polygon, several are a MultiPolygon, none is an empty collection. The union dissolves
  parts that share a cell or an edge into one part, as shapely's \<^verbatim>\<open>unary_union\<close>
  dissolves overlapping and adjoining polygons; the area is the number of cells.
\<close>

type_synonym cell = "nat \<times> nat"
type_synonym grid_geom = "cell list list"

definition cells_touch :: "cell \<Rightarrow> cell \<Rightarrow> bool" where
  "cells_touch c d =
     ((fst c = fst d \<and> (snd c = snd d \<or> snd c = Suc (snd d) \<or> snd d = Suc (snd c)))
      \<or> (snd c = snd d \<and> (fst c = Suc (fst d) \<or> fst d = Suc (fst c))))"

definition parts_touch :: "cell list \<Rightarrow> cell list \<Rightarrow> bool" where
  "parts_touch p q = list_ex (\<lambda>c. list_ex (cells_touch c) q) p"

definition dissolve_into :: "cell list \<Rightarrow> cell list list \<Rightarrow> cell list list" where
  "dissolve_into p acc =
     filter (\<lambda>q. \<not> parts_touch p q) acc
       @ [remdups (concat (filter (parts_touch p) acc) @ p)]"

definition grid_union :: "grid_geom \<Rightarrow> grid_geom" where
  "grid_union g = foldl (\<lambda>acc p. dissolve_into p acc) [] (filter (\<lambda>p. p \<noteq> []) g)"

definition grid_type :: "grid_geom \<Rightarrow> string" where
  "grid_type g =
     (case g of [] \<Rightarrow> ''GeometryCollection'' | [p] \<Rightarrow> ''Polygon'' | _ \<Rightarrow> ''MultiPolygon'')"

definition grid_lib :: "(grid_geom, nat) shapely" where
  "grid_lib =
     \<lparr> geom_is_empty = (\<lambda>g. list_all (\<lambda>p. p = []) g),
       geom_type = grid_type,
       unary_union = grid_union,
       geoms = (\<lambda>g. map (\<lambda>p. [p]) g),
       area = (\<lambda>g. length (remdups (concat g))),
       is_valid = (\<lambda>g. list_all distinct g),
       buffer_zero = map remdups,
       wkt = (\<lambda>g. ''GRID'') \<rparr>"

subsection \<open>Filter builder\<close>

text \<open>
  The filter document sent to the provider: a dict with keys \<^verbatim>\<open>type\<close>,
  \<^verbatim>\<open>field_name\<close> (absent on the combined filter) and \<^verbatim>\<open>config\<close>. A range
  configuration is a dict from operator names to bounds, kept as an association list.
  \<open>GeometryConfig g\<close> stands for \<^verbatim>\<open>mapping(g)\<close>.
\<close>

datatype 'g planet_filter =
  Filter (filter_type: string) (field_name: "string option") (config: "'g filter_config")
and 'g filter_config =
    GeometryConfig 'g
  | DateConfig "(string \<times> string) list"
  | RangeConfig "(string \<times> real) list"
  | StringInConfig "string list"
  | AndConfig "'g planet_filter list"

definition geometry_filter :: "'g \<Rightarrow> 'g planet_filter" where
  "geometry_filter geometry =
     Filter ''GeometryFilter'' (Some ''geometry'') (GeometryConfig geometry)"

definition date_filter :: "SearchParams \<Rightarrow> 'g planet_filter" where
  "date_filter params =
     Filter ''DateRangeFilter'' (Some ''acquired'')
       (DateConfig [(''gt'', start_date params @ ''T00:00:00Z''),
                    (''lt'', end_date params @ ''T00:00:00Z'')])"

definition cloud_filter :: "SearchParams \<Rightarrow> 'g planet_filter" where
  "cloud_filter params =
     Filter ''RangeFilter'' (Some ''cloud_cover'') (RangeConfig [(''lt'', max_cloud_cover params)])"

definition nadir_filter :: "SearchParams \<Rightarrow> 'g planet_filter" where
  "nadir_filter params =
     Filter ''RangeFilter'' (Some ''view_angle'')
       (RangeConfig [(''gt'', min_nadir params), (''lte'', max_nadir params)])"

definition instrument_filter :: "SearchParams \<Rightarrow> 'g planet_filter" where
  "instrument_filter params =
     Filter ''StringInFilter'' (Some ''instrument'') (StringInConfig (instruments params))"

definition build_planet_filters :: "'g \<Rightarrow> SearchParams \<Rightarrow> 'g planet_filter" where
  "build_planet_filters geometry params =
     Filter ''AndFilter'' None
       (AndConfig [geometry_filter geometry, date_filter params, cloud_filter params,
                   nadir_filter params, instrument_filter params])"

text \<open>
  Modelled from the spec: the provider's reading of a range configuration is not in the
  source. The spec reads \<^verbatim>\<open>lt\<close> as "strictly less than", \<^verbatim>\<open>gt\<close> as
  "greater-than" with the "lower bound exclusive", and \<^verbatim>\<open>lte\<close> as
  "less-than-or-equal" with the "upper bound inclusive"; \<^verbatim>\<open>gte\<close> completes the
  set. A value satisfies a configuration when it satisfies every bound in it.
\<close>

definition bound_holds :: "string \<Rightarrow> 'a::linorder \<Rightarrow> 'a \<Rightarrow> bool" where
  "bound_holds opr bound x =
     (if opr = ''gt'' then bound < x
      else if opr = ''gte'' then bound \<le> x
      else if opr = ''lt'' then x < bound
      else if opr = ''lte'' then x \<le> bound
      else False)"

definition range_holds :: "(string \<times> 'a::linorder) list \<Rightarrow> 'a \<Rightarrow> bool" where
  "range_holds cfg x = list_all (\<lambda>(opr, bound). bound_holds opr bound x) cfg"

text \<open>
  The date predicates of a combined filter: the range configurations of its members of
  type \<^verbatim>\<open>DateRangeFilter\<close> on the field \<^verbatim>\<open>acquired\<close>.
\<close>

fun date_config_of :: "'g planet_filter \<Rightarrow> (string \<times> string) list list" where
  "date_config_of (Filter ty fld (DateConfig c)) =
     (if ty = ''DateRangeFilter'' \<and> fld = Some ''acquired'' then [c] else [])"
| "date_config_of _ = []"

fun date_predicates :: "'g planet_filter \<Rightarrow> (string \<times> string) list list" where
  "date_predicates (Filter ty fld (AndConfig fs)) = concat (map date_config_of fs)"
| "date_predicates f = date_config_of f"

text \<open>
  An acquisition instant \<open>t\<close> passes the date predicates of a filter, the bounds being
  read as instants by \<open>instant\<close>.
\<close>

definition acquired_passes :: "(string \<Rightarrow> 'a::linorder) \<Rightarrow> 'g planet_filter \<Rightarrow> 'a \<Rightarrow> bool" where
  "acquired_passes instant flt t =
     list_all (\<lambda>c. range_holds (map (\<lambda>(opr, b). (opr, instant b)) c) t) (date_predicates flt)"

definition start_instant :: "SearchParams \<Rightarrow> string" where
  "start_instant params = start_date params @ ''T00:00:00Z''"

definition end_instant :: "SearchParams \<Rightarrow> string" where
  "end_instant params = end_date params @ ''T00:00:00Z''"

subsection \<open>Strings\<close>

text \<open>
  A Python string is a list of characters, each character a code point below 256; text
  with other code points is outside the model.
\<close>

text \<open>Python's \<^verbatim>\<open>str(n)\<close> and \<^verbatim>\<open>f"{n}"\<close> for a natural number: its decimal digits.\<close>

definition digit_char :: "nat \<Rightarrow> char" where
  "digit_char d = ''0123456789'' ! d"

function str_of_nat :: "nat \<Rightarrow> string" where
  "str_of_nat n = (if n < 10 then [digit_char n] else str_of_nat (n div 10) @ [digit_char (n mod 10)])"
  by pat_completeness auto
termination
  by (relation "measure id") auto

declare str_of_nat.simps [simp del]

text \<open>The format \<^verbatim>\<open>{n:03d}\<close>: decimal digits, padded with zeros to three places.\<close>

definition pad3 :: "nat \<Rightarrow> string" where
  "pad3 n = replicate (3 - length (str_of_nat n)) CHR ''0'' @ str_of_nat n"

text \<open>
  \<^verbatim>\<open>str.strip()\<close>: the whitespace characters below 256 are the space, the characters
  9 to 13, the separators 28 to 31, the next-line character 133 and the no-break space
  160.
\<close>

definition is_space :: "char \<Rightarrow> bool" where
  "is_space c =
     (let n = (of_char c :: nat)
      in n = 32 \<or> (9 \<le> n \<and> n \<le> 13) \<or> (28 \<le> n \<and> n \<le> 31) \<or> n = 133 \<or> n = 160)"

definition strip :: "string \<Rightarrow> string" where
  "strip s = rev (dropWhile is_space (rev (dropWhile is_space s)))"

text \<open>
  \<^verbatim>\<open>str.lower()\<close>: below 256 the upper-case letters are 65 to 90 and 192 to 222
  without the multiplication sign 215; each has its lower-case letter 32 places above.
\<close>

definition lower_char :: "char \<Rightarrow> char" where
  "lower_char c =
     (let n = (of_char c :: nat)
      in if (65 \<le> n \<and> n \<le> 90) \<or> (192 \<le> n \<and> n \<le> 222 \<and> n \<noteq> 215) then char_of (n + 32)
         else c)"

definition lower :: "string \<Rightarrow> string" where
  "lower s = map lower_char s"

text \<open>
  \<^verbatim>\<open>Path(s).name\<close> on a POSIX system: the path is cut at the slashes, empty
  components and \<^verbatim>\<open>.\<close> components are dropped, and the name is the last component
  left, or the empty string.
\<close>

fun split_slash :: "string \<Rightarrow> string \<Rightarrow> string list" where
  "split_slash cur [] = [rev cur]"
| "split_slash cur (c # cs) =
     (if c = CHR ''/'' then rev cur # split_slash [] cs else split_slash (c # cur) cs)"

definition path_name :: "string \<Rightarrow> string" where
  "path_name s =
     (let parts = filter (\<lambda>p. p \<noteq> [] \<and> p \<noteq> ''.'') (split_slash [] s)
      in if parts = [] then [] else last parts)"

text \<open>
  \<^verbatim>\<open>str(Path(a) / b)\<close> on a POSIX system. A path has a root (\<^verbatim>\<open>/\<close>, or
  \<^verbatim>\<open>//\<close> when the text begins with exactly two slashes, or none) and its components;
  joining an absolute \<open>b\<close> gives \<open>b\<close>, joining a relative \<open>b\<close> appends its
  components; the path without root and components is written \<^verbatim>\<open>.\<close>.
\<close>

definition path_root :: "string \<Rightarrow> string" where
  "path_root s =
     (if take 3 s = ''///'' then ''/''
      else if take 2 s = ''//'' then ''//''
      else if take 1 s = ''/'' then ''/''
      else [])"

definition path_parts :: "string \<Rightarrow> string list" where
  "path_parts s = filter (\<lambda>p. p \<noteq> [] \<and> p \<noteq> ''.'') (split_slash [] s)"

fun join_slash :: "string list \<Rightarrow> string" where
  "join_slash [] = []"
| "join_slash [p] = p"
| "join_slash (p # q # ps) = p @ CHR ''/'' # join_slash (q # ps)"

definition path_str :: "string \<Rightarrow> string list \<Rightarrow> string" where
  "path_str rt parts = (if rt = [] \<and> parts = [] then ''.'' else rt @ join_slash parts)"

definition path_join :: "string \<Rightarrow> string \<Rightarrow> string" where
  "path_join a b =
     (if path_root b \<noteq> [] then path_str (path_root b) (path_parts b)
      else path_str (path_root a) (path_parts a @ path_parts b))"

text \<open>
  \<^verbatim>\<open>zf.writestr(file_name, data)\<close> of the \<^verbatim>\<open>zipfile\<close> module (Python 3.11): the
  entry name is the file name up to its first NUL character; an empty entry name raises
  \<^verbatim>\<open>IndexError\<close> (the module reads its last character), and an entry name of more
  than 65535 bytes in UTF-8 raises \<^verbatim>\<open>struct.error\<close> (the header holds its length
  in two bytes). A character from 128 on takes two bytes. A name written before is
  written again: the archive then holds both entries. The clock, which stamps the entry,
  is not set before 1980.
\<close>

definition utf8_length :: "string \<Rightarrow> int" where
  "utf8_length s = int (length s) + int (length (filter (\<lambda>c. 128 \<le> (of_char c :: nat)) s))"

definition zip_writestr :: "string \<Rightarrow> string \<Rightarrow> error + (string \<times> string)" where
  "zip_writestr file_name data =
     (let arcname = takeWhile (\<lambda>c. c \<noteq> CHR 0x00) file_name
      in if arcname = [] then Inl (IndexError ''string index out of range'')
         else if 65535 < utf8_length arcname
         then Inl (StructError ''ushort format requires 0 <= number <= 65535'')
         else Inr (arcname, data))"

text \<open>
  Python's indexing \<^verbatim>\<open>xs[i]\<close> and slicing \<^verbatim>\<open>xs[:n]\<close>: a negative index counts
  from the end, an index out of range raises \<^verbatim>\<open>IndexError\<close>, a slice never raises.
\<close>

definition py_index :: "'b list \<Rightarrow> int \<Rightarrow> error + 'b" where
  "py_index xs i =
     (if 0 \<le> i \<and> i < int (length xs) then Inr (xs ! nat i)
      else if i < 0 \<and> - int (length xs) \<le> i then Inr (xs ! nat (int (length xs) + i))
      else Inl (IndexError ''list index out of range''))"

definition py_slice_to :: "'b list \<Rightarrow> int \<Rightarrow> 'b list" where
  "py_slice_to xs n = (if n < 0 then take (nat (int (length xs) + n)) xs else take (nat n) xs)"

subsection \<open>The provider and the responses the source reads\<close>

text \<open>
  A response of \<^verbatim>\<open>requests\<close>: the status code, the body as text, and the body as
  parsed by \<^verbatim>\<open>resp.json()\<close> (\<open>None\<close> where parsing raises). \<^verbatim>\<open>resp.ok\<close> is false
  exactly for the codes 400 to 599, for which \<^verbatim>\<open>raise_for_status()\<close> raises.
\<close>

record 'b response =
  status_code :: nat
  resp_text :: string
  json :: "'b option"

definition ok :: "('b, 'z) response_scheme \<Rightarrow> bool" where
  "ok resp = (\<not> (400 \<le> status_code resp \<and> status_code resp < 600))"

text \<open>
  The JSON documents, with the keys the source reads; \<open>None\<close> is an absent key. Scene
  identifiers, item types, states, names and locations are strings, as the provider
  sends them.
\<close>

record properties =
  item_type :: "string option"

record feature =
  feat_id :: "string option"
  feat_properties :: "properties option"

record search_data =
  features :: "feature list option"

record order_links =
  link_self :: "string option"

record order_body =
  order_id :: "string option"
  order_links :: "order_links option"

record result_desc =
  location :: "string option"
  result_name :: "string option"

record status_links =
  results :: "result_desc list option"

record status_body =
  state :: "string option"
  status_links :: "status_links option"

text \<open>A streamed download: status, the \<^verbatim>\<open>Content-Length\<close> header, the chunks.\<close>

record file_response =
  file_status :: nat
  content_length :: "string option"
  chunks :: "string list"

record product =
  item_ids :: "string list"
  product_item_type :: string
  product_bundle :: string

datatype 'g tool = Clip 'g

record 'g order_request =
  request_name :: string
  products :: "product list"
  tools :: "'g tool list"

text \<open>
  The provider answers each call made through the session; a call that raises in the
  transport (retries exhausted, timeout, malformed URL) is an \<open>Inl\<close>. The status of an
  order is fetched again and again, so \<open>get_status url k\<close> is the answer to the
  \<open>k\<close>-th fetch of \<open>url\<close>, counted from 0.
\<close>

record 'g provider =
  post_search :: "string \<Rightarrow> string list \<times> 'g planet_filter \<Rightarrow> error + search_data response"
  post_order :: "string \<Rightarrow> 'g order_request \<Rightarrow> error + order_body response"
  get_status :: "string \<Rightarrow> nat \<Rightarrow> error + status_body response"
  get_file :: "string option \<Rightarrow> error + file_response"

text \<open>
  What else the run takes from its environment: \<^verbatim>\<open>json.dumps\<close> of a status document
  (\<^verbatim>\<open>pretty\<close>), the builtin \<^verbatim>\<open>int\<close> on a string (\<open>None\<close> where it raises
  \<^verbatim>\<open>ValueError\<close>), and the operator's reply to the prompt for the AOI at a position.
\<close>

record environment =
  pretty :: "status_body \<Rightarrow> string"
  py_int :: "string \<Rightarrow> int option"
  input_reply :: "nat \<Rightarrow> string"

text \<open>What the run does to the outside, in order.\<close>

datatype 'g event =
    SearchPosted string "string list \<times> 'g planet_filter"
  | OrderPosted string "'g order_request"
  | StatusFetched string
  | Slept nat
  | FileFetched "string option"
  | ZipSaved string "(string \<times> string) list"
  | PreviewSaved 'g "nat option"
  | BrowserOpened
  | OrderFailureLogged string error
  | TextListWritten string "string list"

subsection \<open>Search client\<close>

definition quick_search ::
  "'g provider \<Rightarrow> Config \<Rightarrow> 'g \<Rightarrow> SearchParams \<Rightarrow> error + search_data" where
  "quick_search P cfg geometry params =
     (let request_payload = (item_types params, build_planet_filters geometry params);
          quick_url = data_url cfg @ ''/quick-search''
      in case post_search P quick_url request_payload of
           Inl e \<Rightarrow> Inl e
         | Inr resp \<Rightarrow>
             if \<not> ok resp
             then Inl (RuntimeError (''Quick-search failed: '' @ str_of_nat (status_code resp)
                                      @ '' '' @ resp_text resp))
             else
               (case json resp of
                  None \<Rightarrow> Inl (ValueError ''JSONDecodeError'')
                | Some data \<Rightarrow>
                    (case features data of
                       None \<Rightarrow> Inr data
                     | Some fs \<Rightarrow>
                         if int (length fs) > result_limit params
                         then Inr (data\<lparr>features := Some (py_slice_to fs (result_limit params))\<rparr>)
                         else Inr data)))"

subsection \<open>Order lifecycle\<close>

definition order_request ::
  "string \<Rightarrow> string \<Rightarrow> 'g \<Rightarrow> string \<Rightarrow> string \<Rightarrow> 'g order_request" where
  "order_request item_id item_ty aoi_geometry bundle order_name =
     \<lparr> request_name = order_name,
       products = [\<lparr> item_ids = [item_id], product_item_type = item_ty, product_bundle = bundle \<rparr>],
       tools = [Clip aoi_geometry] \<rparr>"

text \<open>
  The polling loop \<^verbatim>\<open>while True\<close>, from the \<open>k\<close>-th fetch on. It has no bound, so
  it is a partial function: \<open>None\<close> is a loop that never ends. The events so far are
  carried along.
\<close>

partial_function (option) poll ::
  "'g provider \<Rightarrow> environment \<Rightarrow> Config \<Rightarrow> string \<Rightarrow> string \<Rightarrow> nat \<Rightarrow> 'g event list
     \<Rightarrow> ('g event list \<times> (error + status_body)) option" where
  "poll P E cfg oid order_url k tr =
     (case get_status P order_url k of
        Inl e \<Rightarrow> Some (tr @ [StatusFetched order_url], Inl e)
      | Inr stat \<Rightarrow>
          if \<not> ok stat
          then Some (tr @ [StatusFetched order_url],
                     Inl (RuntimeError (''Failed to fetch order status: ''
                            @ str_of_nat (status_code stat) @ '' '' @ resp_text stat)))
          else
            (case json stat of
               None \<Rightarrow> Some (tr @ [StatusFetched order_url], Inl (ValueError ''JSONDecodeError''))
             | Some s \<Rightarrow>
                 if state s = Some ''success'' then Some (tr @ [StatusFetched order_url], Inr s)
                 else if state s = Some ''failed''
                 then Some (tr @ [StatusFetched order_url],
                            Inl (RuntimeError (''Order '' @ oid @ '' failed. Response: ''
                                   @ pretty E s)))
                 else poll P E cfg oid order_url (Suc k)
                        (tr @ [StatusFetched order_url, Slept (poll_interval_s cfg)])))"

declare poll.simps [code]

text \<open>
  One pass of the download loop, for the result at the 1-based position \<open>idx\<close>: the
  download, and the entry that \<^verbatim>\<open>zf.writestr\<close> adds to the archive.
\<close>

definition fetch_result ::
  "'g provider \<Rightarrow> environment \<Rightarrow> nat \<Rightarrow> result_desc \<Rightarrow> error + (string \<times> string)" where
  "fetch_result P E idx result =
     (let url = location result;
          orig_name = (case result_name result of
                         None \<Rightarrow> ''result_'' @ str_of_nat idx
                       | Some nm \<Rightarrow> nm);
          file_name = path_name orig_name
      in case get_file P url of
           Inl e \<Rightarrow> Inl e
         | Inr r \<Rightarrow>
             if 400 \<le> file_status r \<and> file_status r < 600 then Inl (HTTPError (file_status r))
             else
               (case py_int E (case content_length r of None \<Rightarrow> ''0'' | Some h \<Rightarrow> h) of
                  None \<Rightarrow> Inl (ValueError ''invalid literal for int() with base 10'')
                | Some total_bytes \<Rightarrow>
                    zip_writestr file_name (concat (filter (\<lambda>b. b \<noteq> []) (chunks r)))))"

text \<open>
  The loop \<^verbatim>\<open>for idx, result in enumerate(results, start=1)\<close>: the archive is the list
  of entries written, in order; a failing download or a failing write ends the loop with
  its error.
\<close>

fun download_results ::
  "'g provider \<Rightarrow> environment \<Rightarrow> nat \<Rightarrow> result_desc list
     \<Rightarrow> 'g event list \<times> (error + (string \<times> string) list)" where
  "download_results P E idx [] = ([], Inr [])"
| "download_results P E idx (r # rs) =
     (case fetch_result P E idx r of
        Inl e \<Rightarrow> ([FileFetched (location r)], Inl e)
      | Inr entry \<Rightarrow>
          (case download_results P E (Suc idx) rs of
             (tr, Inl e) \<Rightarrow> (FileFetched (location r) # tr, Inl e)
           | (tr, Inr entries) \<Rightarrow> (FileFetched (location r) # tr, Inr (entry # entries))))"

text \<open>\<^verbatim>\<open>cfg.download_dir / f"{order_name}_bundle.zip"\<close>, as text.\<close>

definition zip_path :: "Config \<Rightarrow> string \<Rightarrow> string" where
  "zip_path cfg order_name = path_join (download_dir cfg) (order_name @ ''_bundle.zip'')"

definition results_of :: "status_body \<Rightarrow> result_desc list" where
  "results_of s =
     (case status_links s of
        None \<Rightarrow> []
      | Some l \<Rightarrow> (case results l of None \<Rightarrow> [] | Some rs \<Rightarrow> rs))"

definition place_order_and_download ::
  "'g provider \<Rightarrow> environment \<Rightarrow> Config \<Rightarrow> string \<Rightarrow> string \<Rightarrow> 'g \<Rightarrow> string \<Rightarrow> string
     \<Rightarrow> ('g event list \<times> (error + string \<times> (string \<times> string) list)) option" where
  "place_order_and_download P E cfg item_id item_ty aoi_geometry bundle order_name =
     (let req = order_request item_id item_ty aoi_geometry bundle order_name;
          posted = [OrderPosted (orders_url cfg) req]
      in case post_order P (orders_url cfg) req of
           Inl e \<Rightarrow> Some (posted, Inl e)
         | Inr resp \<Rightarrow>
             if status_code resp \<noteq> 202
             then Some (posted,
                        Inl (RuntimeError (''Order failed: '' @ str_of_nat (status_code resp)
                               @ '' '' @ resp_text resp)))
             else
               (case json resp of
                  None \<Rightarrow> Some (posted, Inl (ValueError ''JSONDecodeError''))
                | Some order \<Rightarrow>
                    (case order_id order of
                       None \<Rightarrow> Some (posted, Inl (KeyError ''id''))
                     | Some oid \<Rightarrow>
                         (case order_links order of
                            None \<Rightarrow> Some (posted, Inl (KeyError ''_links''))
                          | Some l \<Rightarrow>
                              (case link_self l of
                                 None \<Rightarrow> Some (posted, Inl (KeyError ''_self''))
                               | Some order_url \<Rightarrow>
                                   (case poll P E cfg oid order_url 0 posted of
                                      None \<Rightarrow> None
                                    | Some (tr, Inl e) \<Rightarrow> Some (tr, Inl e)
                                    | Some (tr, Inr s) \<Rightarrow>
                                        if results_of s = []
                                        then Some (tr, Inl (RuntimeError
                                               ''No results links present in completed order.''))
                                        else
                                          (case download_results P E 1 (results_of s) of
                                             (tr2, Inl e) \<Rightarrow> Some (tr @ tr2, Inl e)
                                           | (tr2, Inr entries) \<Rightarrow>
                                               Some (tr @ tr2 @ [ZipSaved (zip_path cfg order_name) entries],
                                                     Inr (zip_path cfg order_name, entries)))))))))"

subsection \<open>Run orchestrator\<close>

text \<open>The command-line arguments that \<^verbatim>\<open>main\<close> reads.\<close>

record args =
  arg_start_date :: string
  arg_end_date :: string
  arg_max_cloud :: real
  arg_min_nadir :: real
  arg_max_nadir :: real
  arg_instrument :: "string list"
  arg_item_type :: "string list"
  arg_bundle :: string
  arg_download_dir :: string
  arg_orders_out :: string
  arg_map_out :: string
  arg_preview :: bool
  arg_open_map :: bool
  arg_prompt :: bool
  arg_item_id :: string
  arg_order :: bool

text \<open>\<^verbatim>\<open>feats[0]["id"]\<close>.\<close>

definition first_id :: "feature list \<Rightarrow> error + string" where
  "first_id feats =
     (case feats of
        [] \<Rightarrow> Inl (IndexError ''list index out of range'')
      | f # _ \<Rightarrow> (case feat_id f of None \<Rightarrow> Inl (KeyError ''id'') | Some i \<Rightarrow> Inr i))"

text \<open>\<^verbatim>\<open>feats[int(pick) - 1]["id"]\<close>, the body of the \<^verbatim>\<open>try\<close>.\<close>

definition picked_id :: "environment \<Rightarrow> feature list \<Rightarrow> string \<Rightarrow> error + string" where
  "picked_id E feats pick =
     (case py_int E pick of
        None \<Rightarrow> Inl (ValueError ''invalid literal for int() with base 10'')
      | Some i \<Rightarrow>
          (case py_index feats (i - 1) of
             Inl e \<Rightarrow> Inl e
           | Inr f \<Rightarrow> (case feat_id f of None \<Rightarrow> Inl (KeyError ''id'') | Some x \<Rightarrow> Inr x)))"

text \<open>
  The choice of the item id for the AOI at position \<open>idx\<close>: by prompt or not.
  \<open>Inr None\<close> is the operator's \<^verbatim>\<open>s\<close>, which skips the AOI.
\<close>

definition pick_item_id ::
  "environment \<Rightarrow> args \<Rightarrow> nat \<Rightarrow> feature list \<Rightarrow> error + string option" where
  "pick_item_id E a idx feats =
     (let chosen_item_id = strip (arg_item_id a) in
      if arg_prompt a then
        (let pick = lower (strip (input_reply E idx)) in
         if pick = ''s'' then Inr None
         else if pick \<noteq> [] then
           (case picked_id E feats pick of
              Inr x \<Rightarrow> Inr (Some x)
            | Inl _ \<Rightarrow> map_sum id Some (first_id feats))
         else map_sum id Some (first_id feats))
      else if chosen_item_id = [] then map_sum id Some (first_id feats)
      else Inr (Some chosen_item_id))"

text \<open>
  \<^verbatim>\<open>next((f for f in feats if f["id"] == chosen_item_id), feats[0])\<close>: the generator
  reads \<^verbatim>\<open>f["id"]\<close> of each feature up to the first match.
\<close>

fun find_match :: "feature list \<Rightarrow> string \<Rightarrow> error + feature option" where
  "find_match [] chosen = Inr None"
| "find_match (f # fs) chosen =
     (case feat_id f of
        None \<Rightarrow> Inl (KeyError ''id'')
      | Some i \<Rightarrow> if i = chosen then Inr (Some f) else find_match fs chosen)"

definition resolve_item_type :: "feature list \<Rightarrow> string \<Rightarrow> error + string" where
  "resolve_item_type feats chosen =
     (case feats of
        [] \<Rightarrow> Inl (IndexError ''list index out of range'')
      | f0 # _ \<Rightarrow>
          (case find_match feats chosen of
             Inl e \<Rightarrow> Inl e
           | Inr m \<Rightarrow>
               (let match = (case m of None \<Rightarrow> f0 | Some f \<Rightarrow> f) in
                case feat_properties match of
                  None \<Rightarrow> Inl (KeyError ''properties'')
                | Some props \<Rightarrow>
                    (case item_type props of
                       None \<Rightarrow> Inl (KeyError ''item_type'')
                     | Some ty \<Rightarrow> Inr ty))))"

definition reference_line :: "('g, 'a) shapely \<Rightarrow> string \<Rightarrow> string \<Rightarrow> 'g \<Rightarrow> string" where
  "reference_line L chosen ty geom =
     ''(api_key=****, item_id='' @ chosen @ '', item_type='' @ ty @ '', aoi_wkt=''
       @ take 120 (wkt L geom) @ ''...)''"

definition order_name_of :: "nat \<Rightarrow> nat \<Rightarrow> string" where
  "order_name_of idx order_idx = ''AOI_'' @ pad3 (idx + 1) @ ''_'' @ pad3 order_idx"

definition preview_events :: "args \<Rightarrow> nat \<Rightarrow> nat \<Rightarrow> 'g \<Rightarrow> 'g event list" where
  "preview_events a n idx geom =
     (if arg_preview a
      then PreviewSaved geom (if n > 1 then Some (idx + 1) else None)
             # (if arg_open_map a then [BrowserOpened] else [])
      else [])"

text \<open>
  The body of \<^verbatim>\<open>for idx, row in gdf.iterrows()\<close> for the row at position \<open>idx\<close>
  of \<open>n\<close> rows, on the state \<open>(orders_list, order_idx)\<close>; the index labels of the
  frame are the positions 0, 1, ..., as \<^verbatim>\<open>read_file\<close> numbers them. An \<open>Inl\<close> is
  an exception that leaves the loop; only the order is inside a \<^verbatim>\<open>try\<close>.
\<close>

definition process_aoi ::
  "('g, 'a::linorder) shapely \<Rightarrow> 'g provider \<Rightarrow> environment \<Rightarrow> Config \<Rightarrow> SearchParams \<Rightarrow> args
     \<Rightarrow> nat \<Rightarrow> nat \<Rightarrow> 'g \<Rightarrow> string list \<times> nat
     \<Rightarrow> ('g event list \<times> (error + string list \<times> nat)) option" where
  "process_aoi L P E cfg params a n idx row st =
     (case validate_geometry L row of
        Inl e \<Rightarrow> Some ([], Inl e)
      | Inr geom \<Rightarrow>
          (let searched = [SearchPosted (data_url cfg @ ''/quick-search'')
                             (item_types params, build_planet_filters geom params)]
           in case quick_search P cfg geom params of
                Inl e \<Rightarrow> Some (searched, Inl e)
              | Inr geojson \<Rightarrow>
                  (let feats = (case features geojson of None \<Rightarrow> [] | Some fs \<Rightarrow> fs) in
                   if feats = [] then Some (searched, Inr st)
                   else
                     (let shown = searched @ preview_events a n idx geom in
                      case pick_item_id E a idx feats of
                        Inl e \<Rightarrow> Some (shown, Inl e)
                      | Inr None \<Rightarrow> Some (shown, Inr st)
                      | Inr (Some chosen_item_id) \<Rightarrow>
                          (case resolve_item_type feats chosen_item_id of
                             Inl e \<Rightarrow> Some (shown, Inl e)
                           | Inr ty \<Rightarrow>
                               (let orders_list = fst st @ [reference_line L chosen_item_id ty geom] in
                                if arg_order a then
                                  (let order_idx = snd st + 1 in
                                   case place_order_and_download P E cfg chosen_item_id ty geom
                                          (arg_bundle a) (order_name_of idx order_idx) of
                                     None \<Rightarrow> None
                                   | Some (tr, Inl e) \<Rightarrow>
                                       Some (shown @ tr @ [OrderFailureLogged chosen_item_id e],
                                             Inr (orders_list, order_idx))
                                   | Some (tr, Inr zp) \<Rightarrow>
                                       Some (shown @ tr, Inr (orders_list, order_idx)))
                                else Some (shown, Inr (orders_list, snd st))))))))"

fun main_loop ::
  "('g, 'a::linorder) shapely \<Rightarrow> 'g provider \<Rightarrow> environment \<Rightarrow> Config \<Rightarrow> SearchParams \<Rightarrow> args
     \<Rightarrow> nat \<Rightarrow> nat \<Rightarrow> 'g list \<Rightarrow> string list \<times> nat
     \<Rightarrow> ('g event list \<times> (error + string list \<times> nat)) option" where
  "main_loop L P E cfg params a n idx [] st = Some ([], Inr st)"
| "main_loop L P E cfg params a n idx (row # rows) st =
     (case process_aoi L P E cfg params a n idx row st of
        None \<Rightarrow> None
      | Some (tr, Inl e) \<Rightarrow> Some (tr, Inl e)
      | Some (tr, Inr st') \<Rightarrow>
          (case main_loop L P E cfg params a n (Suc idx) rows st' of
             None \<Rightarrow> None
           | Some (tr', r) \<Rightarrow> Some (tr @ tr', r)))"

definition config_of :: "string \<Rightarrow> args \<Rightarrow> Config" where
  "config_of key a =
     \<lparr> api_key = key,
       data_url = ''https://api.planet.com/data/v1'',
       orders_url = ''https://api.planet.com/compute/ops/orders/v2'',
       poll_interval_s = 30,
       download_dir = arg_download_dir a,
       timeout_s = 30 \<rparr>"

definition params_of :: "args \<Rightarrow> SearchParams" where
  "params_of a =
     \<lparr> start_date = arg_start_date a,
       end_date = arg_end_date a,
       max_cloud_cover = arg_max_cloud a,
       min_nadir = arg_min_nadir a,
       max_nadir = arg_max_nadir a,
       instruments = arg_instrument a,
       item_types = arg_item_type a,
       result_limit = 100 \<rparr>"

text \<open>
  \<^verbatim>\<open>main\<close>, on the value of \<^verbatim>\<open>PL_API_KEY\<close> (empty when unset) and the rows read
  from the AOI file: the events, and the exit code or the exception that ends the run.
\<close>

definition main ::
  "('g, 'a::linorder) shapely \<Rightarrow> 'g provider \<Rightarrow> environment \<Rightarrow> args \<Rightarrow> string \<Rightarrow> 'g list
     \<Rightarrow> ('g event list \<times> (error + int)) option" where
  "main L P E a pl_api_key rows =
     (let key = strip pl_api_key in
      if key = [] then Some ([], Inr 2)
      else if rows = [] then Some ([], Inr 2)
      else
        (case main_loop L P E (config_of key a) (params_of a) a (length rows) 0 rows ([], 0) of
           None \<Rightarrow> None
         | Some (tr, Inl e) \<Rightarrow> Some (tr, Inl e)
         | Some (tr, Inr (orders_list, order_idx)) \<Rightarrow>
             Some (tr @ (if orders_list \<noteq> []
                         then [TextListWritten (arg_orders_out a) orders_list] else []),
                   Inr 0)))"

subsection \<open>The selection the spec describes\<close>

text \<open>
  The member with the greatest key, the first such member in the order of the list on
  ties; \<open>None\<close> on the empty list.
\<close>

definition first_largest :: "('b \<Rightarrow> 'a::linorder) \<Rightarrow> 'b list \<Rightarrow> 'b option" where
  "first_largest key xs = find (\<lambda>x. \<forall>y\<in>set xs. key y \<le> key x) xs"

subsection \<open>Concrete inputs\<close>

definition default_params :: SearchParams where
  "default_params =
     \<lparr> start_date = ''2020-09-01'', end_date = ''2020-12-31'', max_cloud_cover = 1 / 10,
       min_nadir = - 1, max_nadir = 1, instruments = [''PSB.SD''], item_types = [''PSScene''],
       result_limit = 100 \<rparr>"

text \<open>A square of four cells; two parts that overlap in a cell; two parts far apart.\<close>

definition aoi_square :: grid_geom where
  "aoi_square = [[(0, 0), (1, 0), (0, 1), (1, 1)]]"

definition aoi_overlapping :: grid_geom where
  "aoi_overlapping = [[(0, 0), (1, 0)], [(1, 0), (2, 0), (3, 0)]]"

definition aoi_apart :: grid_geom where
  "aoi_apart = [[(0, 0), (1, 0)], [(5, 0), (6, 0), (7, 0)]]"

subsection \<open>Predicates of the claims\<close>

text \<open>
  The status document that the \<open>j\<close>-th fetch reports, when the fetch succeeds; a state
  is terminal when it is \<^verbatim>\<open>success\<close> or \<^verbatim>\<open>failed\<close>; a fetch is pending when it
  reports a document whose state is not terminal (or has no state at all).
\<close>

definition reported :: "'g provider \<Rightarrow> string \<Rightarrow> nat \<Rightarrow> status_body option" where
  "reported P url j =
     (case get_status P url j of
        Inl e \<Rightarrow> None
      | Inr stat \<Rightarrow> if ok stat then json stat else None)"

definition terminal :: "string option \<Rightarrow> bool" where
  "terminal st = (st = Some ''success'' \<or> st = Some ''failed'')"

definition pending :: "'g provider \<Rightarrow> string \<Rightarrow> nat \<Rightarrow> bool" where
  "pending P url j = (case reported P url j of None \<Rightarrow> False | Some s \<Rightarrow> \<not> terminal (state s))"

text \<open>The events of \<open>k\<close> fetches followed by a sleep, and a last fetch.\<close>

definition polling_events :: "string \<Rightarrow> Config \<Rightarrow> nat \<Rightarrow> 'g event list" where
  "polling_events url cfg k =
     concat (replicate k [StatusFetched url, Slept (poll_interval_s cfg)]) @ [StatusFetched url]"

text \<open>
  A download succeeds when the transport answers, the status is no error status and the
  \<^verbatim>\<open>Content-Length\<close> header, if any, is a number.
\<close>

definition download_ok :: "'g provider \<Rightarrow> environment \<Rightarrow> result_desc \<Rightarrow> bool" where
  "download_ok P E r =
     (case get_file P (location r) of
        Inl e \<Rightarrow> False
      | Inr f \<Rightarrow>
          (file_status f < 400 \<or> 600 \<le> file_status f)
          \<and> py_int E (case content_length f of None \<Rightarrow> ''0'' | Some h \<Rightarrow> h) \<noteq> None)"

text \<open>The bytes fetched from the location of a descriptor.\<close>

definition fetched_bytes :: "'g provider \<Rightarrow> result_desc \<Rightarrow> string" where
  "fetched_bytes P r =
     (case get_file P (location r) of Inl e \<Rightarrow> [] | Inr f \<Rightarrow> concat (chunks f))"

text \<open>The suggested name of the descriptor at the 1-based position \<open>idx\<close>, or its default.\<close>

definition suggested_name :: "nat \<Rightarrow> result_desc \<Rightarrow> string" where
  "suggested_name idx r =
     (case result_name r of None \<Rightarrow> ''result_'' @ str_of_nat idx | Some nm \<Rightarrow> nm)"

text \<open>
  An entry name that the archive writer takes as it is: not empty, without a NUL
  character, of at most 65535 bytes. The entry names of the descriptors \<open>rs\<close>, the first
  at the position \<open>idx\<close>, are all such names; a descriptor with a suggested name has
  such a name once the directories are stripped.
\<close>

definition entry_name_ok :: "string \<Rightarrow> bool" where
  "entry_name_ok nm = (nm \<noteq> [] \<and> CHR 0x00 \<notin> set nm \<and> utf8_length nm \<le> 65535)"

fun names_ok :: "nat \<Rightarrow> result_desc list \<Rightarrow> bool" where
  "names_ok idx [] = True"
| "names_ok idx (r # rs) =
     (entry_name_ok (path_name (suggested_name idx r)) \<and> names_ok (Suc idx) rs)"


text \<open>
  The archive expected of the descriptors \<open>rs\<close>, the first at the position \<open>idx\<close>: one
  entry per descriptor, in order.
\<close>

definition expected_entries :: "'g provider \<Rightarrow> nat \<Rightarrow> result_desc list \<Rightarrow> (string \<times> string) list" where
  "expected_entries P idx rs =
     map (\<lambda>(i, r). (path_name (suggested_name i r), fetched_bytes P r))
       (zip [idx..<idx + length rs] rs)"

subsection \<open>A concrete provider and environment\<close>

text \<open>
  A provider that returns three scenes, accepts the order, reports \<^verbatim>\<open>running\<close>
  twice and then \<^verbatim>\<open>success\<close> with two result files, the second without a name.
\<close>

definition mock_features :: "feature list" where
  "mock_features =
     [\<lparr> feat_id = Some ''scene_1'', feat_properties = Some \<lparr> item_type = Some ''PSScene'' \<rparr> \<rparr>,
      \<lparr> feat_id = Some ''scene_2'', feat_properties = Some \<lparr> item_type = Some ''REOrthoTile'' \<rparr> \<rparr>,
      \<lparr> feat_id = Some ''scene_3'', feat_properties = Some \<lparr> item_type = Some ''PSScene'' \<rparr> \<rparr>]"

definition mock_results :: "result_desc list" where
  "mock_results =
     [\<lparr> location = Some ''https://files/a'', result_name = Some ''order_1/PSScene/scene_1_clip.tif'' \<rparr>,
      \<lparr> location = Some ''https://files/b'', result_name = None \<rparr>]"

definition mock_status :: "nat \<Rightarrow> status_body" where
  "mock_status k =
     (if k < 2 then \<lparr> state = Some ''running'', status_links = None \<rparr>
      else \<lparr> state = Some ''success'', status_links = Some \<lparr> results = Some mock_results \<rparr> \<rparr>)"

definition mock_file :: "string option \<Rightarrow> file_response" where
  "mock_file url =
     (if url = Some ''https://files/a''
      then \<lparr> file_status = 200, content_length = Some ''6'', chunks = [''abc'', [], ''def''] \<rparr>
      else \<lparr> file_status = 200, content_length = None, chunks = [''xyz''] \<rparr>)"

definition mock_provider :: "grid_geom provider" where
  "mock_provider =
     \<lparr> post_search = (\<lambda>url payload.
          Inr \<lparr> status_code = 200, resp_text = [], json = Some \<lparr> features = Some mock_features \<rparr> \<rparr>),
       post_order = (\<lambda>url req.
          Inr \<lparr> status_code = 202, resp_text = [],
                json = Some \<lparr> order_id = Some ''order_1'',
                              order_links = Some \<lparr> link_self = Some ''https://orders/order_1'' \<rparr> \<rparr> \<rparr>),
       get_status = (\<lambda>url k. Inr \<lparr> status_code = 200, resp_text = [], json = Some (mock_status k) \<rparr>),
       get_file = (\<lambda>url. Inr (mock_file url)) \<rparr>"

text \<open>The same provider with an order that fails on the second fetch.\<close>

definition failing_provider :: "grid_geom provider" where
  "failing_provider =
     mock_provider \<lparr> get_status := (\<lambda>url k.
        Inr \<lparr> status_code = 200, resp_text = [],
              json = Some \<lparr> state = Some (if k < 1 then ''queued'' else ''failed''),
                            status_links = None \<rparr> \<rparr>) \<rparr>"

text \<open>The same provider with an order that stays \<^verbatim>\<open>running\<close> for ever.\<close>

definition stuck_provider :: "grid_geom provider" where
  "stuck_provider =
     mock_provider \<lparr> get_status := (\<lambda>url k.
        Inr \<lparr> status_code = 200, resp_text = [],
              json = Some \<lparr> state = Some ''running'', status_links = None \<rparr> \<rparr>) \<rparr>"

text \<open>The same provider answering the order with 200 instead of 202.\<close>

definition rejecting_provider :: "grid_geom provider" where
  "rejecting_provider =
     mock_provider \<lparr> post_order := (\<lambda>url req.
        Inr \<lparr> status_code = 200, resp_text = ''OK'',
              json = Some \<lparr> order_id = Some ''order_1'',
                            order_links = Some \<lparr> link_self = Some ''https://orders/order_1'' \<rparr> \<rparr> \<rparr>) \<rparr>"

text \<open>
  The same provider with an order that succeeds at once with one result file, named
  \<^verbatim>\<open>.\<close> by the first provider and \<^verbatim>\<open>x\<close>, NUL, \<^verbatim>\<open>y\<close> by the second.
\<close>

definition one_result :: "string \<Rightarrow> result_desc list" where
  "one_result nm = [\<lparr> location = Some ''https://files/a'', result_name = Some nm \<rparr>]"

definition one_result_provider :: "string \<Rightarrow> grid_geom provider" where
  "one_result_provider nm =
     mock_provider \<lparr> get_status := (\<lambda>url k.
        Inr \<lparr> status_code = 200, resp_text = [],
              json = Some \<lparr> state = Some ''success'',
                            status_links = Some \<lparr> results = Some (one_result nm) \<rparr> \<rparr> \<rparr>) \<rparr>"

definition dot_provider :: "grid_geom provider" where
  "dot_provider = one_result_provider ''.''"

definition nul_provider :: "grid_geom provider" where
  "nul_provider = one_result_provider [CHR ''x'', CHR 0x00, CHR ''y'']"

text \<open>An environment whose \<^verbatim>\<open>int\<close> reads unsigned decimal numbers.\<close>

definition decimal_value :: "string \<Rightarrow> int option" where
  "decimal_value s =
     (if s \<noteq> [] \<and> list_all (\<lambda>c. 48 \<le> (of_char c :: nat) \<and> (of_char c :: nat) \<le> 57) s
      then Some (foldl (\<lambda>acc c. 10 * acc + (int (of_char c) - 48)) 0 s)
      else None)"

definition mock_env :: environment where
  "mock_env =
     \<lparr> pretty = (\<lambda>s. case state s of None \<Rightarrow> ''{}'' | Some st \<Rightarrow> ''{state: '' @ st @ ''}''),
       py_int = decimal_value,
       input_reply = (\<lambda>idx. []) \<rparr>"

definition mock_args :: args where
  "mock_args =
     \<lparr> arg_start_date = ''2020-09-01'', arg_end_date = ''2020-12-31'', arg_max_cloud = 1 / 10,
       arg_min_nadir = - 1, arg_max_nadir = 1, arg_instrument = [''PSB.SD''],
       arg_item_type = [''PSScene''], arg_bundle = ''visual'', arg_download_dir = ''./downloads'',
       arg_orders_out = ''./orders/list_of_orders_2020.txt'',
       arg_map_out = ''./preview/planet_search_preview_map.html'',
       arg_preview = False, arg_open_map = False, arg_prompt = False, arg_item_id = [],
       arg_order = True \<rparr>"

definition mock_config :: Config where
  "mock_config = config_of ''key'' mock_args"


definition search_args :: args where
  "search_args = mock_args \<lparr> arg_order := False \<rparr>"

section \<open>Properties\<close>

subsection \<open>Geometry normalizer\<close>

lemma max_by_decomp:
  "\<exists>pre post. b # xs = pre @ max_by key b xs # post
      \<and> (\<forall>x\<in>set pre. key x < key (max_by key b xs))
      \<and> (\<forall>x\<in>set post. key x \<le> key (max_by key b xs))"
proof (induction xs arbitrary: b)
  case Nil
  show ?case by (rule exI[of _ "[]"], rule exI[of _ "[]"]) simp
next
  case (Cons x xs)
  define b' where "b' = (if key b < key x then x else b)"
  define m where "m = max_by key b' xs"
  from Cons.IH[of b'] obtain pre post where
    d: "b' # xs = pre @ m # post"
    and lo: "\<forall>y\<in>set pre. key y < key m"
    and hi: "\<forall>y\<in>set post. key y \<le> key m" unfolding m_def by blast
  have m: "max_by key b (x # xs) = m" by (simp add: m_def b'_def)
  have b'le: "key b' \<le> key m"
  proof (cases pre)
    case Nil then show ?thesis using d by simp
  next
    case (Cons p ps) then show ?thesis using d lo by auto
  qed
  have "\<exists>pre post. b # x # xs = pre @ m # post
      \<and> (\<forall>x\<in>set pre. key x < key m) \<and> (\<forall>x\<in>set post. key x \<le> key m)"
  proof (cases "key b < key x")
    case True
    then have "b' = x" by (simp add: b'_def)
    then have "b # x # xs = (b # pre) @ m # post" using d by simp
    moreover have "\<forall>y\<in>set (b # pre). key y < key m" using lo b'le True \<open>b' = x\<close> by auto
    ultimately show ?thesis using hi by blast
  next
    case False
    then have bb: "b' = b" by (simp add: b'_def)
    show ?thesis
    proof (cases pre)
      case Nil
      then have e: "b = m" "post = xs" using d bb by auto
      have "b # x # xs = [] @ m # (x # xs)" using e by simp
      moreover have "\<forall>y\<in>set (x # xs). key y \<le> key m" using hi e False by auto
      ultimately show ?thesis by (metis empty_iff list.set(1))
    next
      case (Cons p ps)
      then have e: "p = b" "xs = ps @ m # post" using d bb by auto
      have "b # x # xs = (b # x # ps) @ m # post" using e by simp
      moreover have "\<forall>y\<in>set (b # x # ps). key y < key m" using lo Cons e False by auto
      ultimately show ?thesis using hi by blast
    qed
  qed
  then show ?case unfolding m .
qed

lemma find_first: "(\<forall>x\<in>set pre. \<not> P x) \<Longrightarrow> P m \<Longrightarrow> find P (pre @ m # post) = Some m"
  by (induction pre) auto

lemma first_largest_max_by: "first_largest key (b # xs) = Some (max_by key b xs)"
proof -
  obtain pre post where d: "b # xs = pre @ max_by key b xs # post"
      and lo: "\<forall>x\<in>set pre. key x < key (max_by key b xs)"
      and hi: "\<forall>x\<in>set post. key x \<le> key (max_by key b xs)"
    using max_by_decomp[of b xs key] by blast
  let ?m = "max_by key b xs"
  let ?P = "\<lambda>x. \<forall>y\<in>set (pre @ ?m # post). key y \<le> key x"
  have "?P ?m" using lo hi by auto
  moreover have "\<forall>x\<in>set pre. \<not> ?P x" using lo by auto
  ultimately have "find ?P (pre @ ?m # post) = Some ?m" by (rule find_first[rotated])
  then show ?thesis unfolding first_largest_def d[symmetric] .
qed

lemma py_max_first_largest:
  "py_max key xs =
     (case first_largest key xs of
        None \<Rightarrow> Inl (ValueError ''max() arg is an empty sequence'')
      | Some m \<Rightarrow> Inr m)"
proof (cases xs)
  case Nil
  then show ?thesis by (simp add: py_max_def first_largest_def)
next
  case (Cons b rest)
  then show ?thesis by (simp add: py_max_def first_largest_max_by)
qed

text \<open>
  C3, as the claim states it, fails: a MultiPolygon of two parts that overlap, of areas 2
  and 3, is normalized to the union of both parts, of area 4, which is none of the parts
  of the input.
\<close>

theorem validate_geometry_merges_overlapping_parts:
  "geom_type grid_lib aoi_overlapping = ''MultiPolygon''
   \<and> map (area grid_lib) (geoms grid_lib aoi_overlapping) = [2, 3]
   \<and> first_largest (area grid_lib) (geoms grid_lib aoi_overlapping) = Some [[(1, 0), (2, 0), (3, 0)]]
   \<and> is_valid grid_lib [[(1, 0), (2, 0), (3, 0)]]
   \<and> validate_geometry grid_lib aoi_overlapping = Inr [[(0, 0), (1, 0), (2, 0), (3, 0)]]"
  by code_simp

text \<open>
  C3, amended: for an input that is not itself a Polygon and whose dissolved union
  (\<^verbatim>\<open>unary_union\<close>) is a MultiPolygon, normalization returns the member of that union
  with the largest area, the first such member in the union's order on ties, unmodified
  except for the validity repair. The selection is made among the members of the union,
  in which overlapping or adjoining input parts are already merged.
\<close>

theorem validate_geometry_largest_member_of_union:
  assumes "\<not> geom_is_empty L g"
    and "geom_type L g \<noteq> ''Polygon''"
    and "geom_type L (unary_union L g) = ''MultiPolygon''"
  shows "validate_geometry L g =
     (case first_largest (area L) (geoms L (unary_union L g)) of
        None \<Rightarrow> Inl (ValueError ''max() arg is an empty sequence'')
      | Some m \<Rightarrow>
          if is_valid L m then Inr m
          else if is_valid L (buffer_zero L m) then Inr (buffer_zero L m)
          else Inl (ValueError ''AOI polygon is invalid and could not be fixed.''))"
  using assms
  by (simp add: validate_geometry_def py_max_first_largest Let_def split: option.splits)

theorem validate_geometry_largest_member_of_union_witness:
  "\<not> geom_is_empty grid_lib aoi_apart
   \<and> geom_type grid_lib aoi_apart \<noteq> ''Polygon''
   \<and> geom_type grid_lib (unary_union grid_lib aoi_apart) = ''MultiPolygon''
   \<and> first_largest (area grid_lib) (geoms grid_lib (unary_union grid_lib aoi_apart))
       = Some [[(5, 0), (6, 0), (7, 0)]]
   \<and> validate_geometry grid_lib aoi_apart = Inr [[(5, 0), (6, 0), (7, 0)]]"
proof -
  have h1: "\<not> geom_is_empty grid_lib aoi_apart" by code_simp
  have h2: "geom_type grid_lib aoi_apart \<noteq> ''Polygon''" by code_simp
  have h3: "geom_type grid_lib (unary_union grid_lib aoi_apart) = ''MultiPolygon''" by code_simp
  have h4: "first_largest (area grid_lib) (geoms grid_lib (unary_union grid_lib aoi_apart))
       = Some [[(5, 0), (6, 0), (7, 0)]]" by code_simp
  have h5: "is_valid grid_lib [[(5, 0), (6, 0), (7, 0)]]" by code_simp
  show ?thesis
    using validate_geometry_largest_member_of_union [OF h1 h2 h3] h1 h2 h3 h4 h5 by simp
qed

text \<open>
  C7: on a valid simple polygon (a non-empty geometry of type Polygon that is valid),
  normalization returns the polygon itself, so normalizing its output returns that output
  again.
\<close>

theorem validate_geometry_idempotent:
  assumes "\<not> geom_is_empty L g"
    and "geom_type L g = ''Polygon''"
    and "is_valid L g"
  shows "validate_geometry L g = Inr g
     \<and> (case validate_geometry L g of
           Inl e \<Rightarrow> False
         | Inr p \<Rightarrow> validate_geometry L p = Inr p)"
  using assms by (simp add: validate_geometry_def)

theorem validate_geometry_idempotent_witness:
  "\<not> geom_is_empty grid_lib aoi_square
   \<and> geom_type grid_lib aoi_square = ''Polygon''
   \<and> is_valid grid_lib aoi_square
   \<and> validate_geometry grid_lib aoi_square = Inr aoi_square
   \<and> (case validate_geometry grid_lib aoi_square of
         Inl e \<Rightarrow> False
       | Inr p \<Rightarrow> validate_geometry grid_lib p = Inr p)"
proof -
  have h1: "\<not> geom_is_empty grid_lib aoi_square" by code_simp
  have h2: "geom_type grid_lib aoi_square = ''Polygon''" by code_simp
  have h3: "is_valid grid_lib aoi_square" by code_simp
  show ?thesis using validate_geometry_idempotent [OF h1 h2 h3] h1 h2 h3 by simp
qed

subsection \<open>Filter builder\<close>

text \<open>
  C1, as the claim states it, fails: the start instant itself lies in [start, end) and
  does not pass the date predicate, which is built with \<^verbatim>\<open>gt\<close>. Instants are compared
  here as ISO-8601 strings of one format, in lexicographic order.
\<close>

theorem date_filter_excludes_start_instant:
  "start_instant default_params \<le> ''2020-09-01T00:00:00Z''
   \<and> ''2020-09-01T00:00:00Z'' < end_instant default_params
   \<and> \<not> acquired_passes (\<lambda>s. s) (build_planet_filters aoi_square default_params)
         ''2020-09-01T00:00:00Z''"
  by (simp add: acquired_passes_def build_planet_filters_def geometry_filter_def date_filter_def
      cloud_filter_def nadir_filter_def instrument_filter_def range_holds_def bound_holds_def
      start_instant_def end_instant_def default_params_def)

text \<open>
  C1, amended: for every search-parameter set and every reading of the bounds as
  instants, the date predicate that the filter builder emits restricts the acquisition
  timestamp to the open interval (start, end): the start instant (start date at
  00:00:00Z) and the end instant are both excluded.
\<close>

theorem date_filter_open_interval:
  "acquired_passes instant (build_planet_filters g p) t
     \<longleftrightarrow> instant (start_instant p) < t \<and> t < instant (end_instant p)"
  by (simp add: acquired_passes_def build_planet_filters_def geometry_filter_def date_filter_def
      cloud_filter_def nadir_filter_def instrument_filter_def range_holds_def bound_holds_def
      start_instant_def end_instant_def)

theorem date_filter_open_interval_witness:
  "acquired_passes (\<lambda>s. s) (build_planet_filters aoi_square default_params) ''2020-10-15T10:30:00Z''
   \<and> \<not> acquired_passes (\<lambda>s. s) (build_planet_filters aoi_square default_params) ''2020-12-31T00:00:00Z''"
  using date_filter_open_interval [of "\<lambda>s. s" aoi_square default_params "''2020-10-15T10:30:00Z''"]
    date_filter_open_interval [of "\<lambda>s. s" aoi_square default_params "''2020-12-31T00:00:00Z''"]
  by (simp add: start_instant_def end_instant_def default_params_def)

subsection \<open>Search client\<close>

text \<open>
  C6: for a provider response with M features and a result cap N (a cap is not negative),
  the search client keeps the first N features in the provider's order: exactly N when
  M > N, and the whole list when M \<le> N.
\<close>

theorem quick_search_keeps_first_features:
  assumes "post_search P (data_url cfg @ ''/quick-search'')
             (item_types params, build_planet_filters g params) = Inr resp"
    and "ok resp"
    and "json resp = Some data"
    and "features data = Some fs"
    and "0 \<le> result_limit params"
  shows "quick_search P cfg g params
           = Inr (data\<lparr>features := Some (take (nat (result_limit params)) fs)\<rparr>)
     \<and> (result_limit params < int (length fs)
          \<longrightarrow> length (take (nat (result_limit params)) fs) = nat (result_limit params))
     \<and> (int (length fs) \<le> result_limit params
          \<longrightarrow> take (nat (result_limit params)) fs = fs)"
proof -
  have unchanged: "data\<lparr>features := Some fs\<rparr> = data"
    using assms(4) by simp
  show ?thesis
    using assms unchanged
    by (auto simp: quick_search_def Let_def py_slice_to_def)
qed

theorem quick_search_keeps_first_features_witness:
  "quick_search mock_provider mock_config aoi_square (default_params\<lparr>result_limit := 2\<rparr>)
     = Inr \<lparr> features = Some (take 2 mock_features) \<rparr>
   \<and> length (take 2 mock_features) = 2
   \<and> quick_search mock_provider mock_config aoi_square default_params
     = Inr \<lparr> features = Some mock_features \<rparr>"
proof -
  let ?resp = "\<lparr> status_code = 200, resp_text = [],
                 json = Some \<lparr> features = Some mock_features \<rparr> \<rparr>"
  have a: "post_search mock_provider (data_url mock_config @ ''/quick-search'') payload = Inr ?resp"
    for payload by (simp add: mock_provider_def)
  have b: "ok ?resp" by (simp add: ok_def)
  have n: "length mock_features = 3" by (simp add: mock_features_def)
  show ?thesis
    using quick_search_keeps_first_features
        [of mock_provider mock_config "default_params\<lparr>result_limit := 2\<rparr>" aoi_square
            ?resp "\<lparr> features = Some mock_features \<rparr>" mock_features, OF a b]
      quick_search_keeps_first_features
        [of mock_provider mock_config default_params aoi_square
            ?resp "\<lparr> features = Some mock_features \<rparr>" mock_features, OF a b]
      n
    by (simp add: default_params_def)
qed

subsection \<open>Order lifecycle: polling\<close>

lemma poll_pending:
  assumes "pending P url i"
  shows "poll P E cfg oid url i tr
           = poll P E cfg oid url (Suc i) (tr @ [StatusFetched url, Slept (poll_interval_s cfg)])"
  using assms
  by (subst poll.simps)
     (auto simp: pending_def reported_def terminal_def split: sum.splits option.splits if_splits)

lemma poll_terminal:
  assumes "reported P url k = Some s" and "terminal (state s)"
  shows "poll P E cfg oid url k tr
           = Some (tr @ [StatusFetched url],
                   if state s = Some ''success'' then Inr s
                   else Inl (RuntimeError (''Order '' @ oid @ '' failed. Response: '' @ pretty E s)))"
  using assms
  by (subst poll.simps)
     (auto simp: reported_def terminal_def split: sum.splits option.splits if_splits)

lemma poll_skips_pending:
  "list_all (pending P url) [i..<i + n]
     \<Longrightarrow> poll P E cfg oid url i tr
           = poll P E cfg oid url (i + n)
               (tr @ concat (replicate n [StatusFetched url, Slept (poll_interval_s cfg)]))"
proof (induction n arbitrary: i tr)
  case 0
  show ?case by simp
next
  case (Suc n)
  have split: "[i..<i + Suc n] = i # [Suc i..<Suc i + n]"
    by (simp add: upt_conv_Cons)
  from Suc.prems have first: "pending P url i"
    and rest: "list_all (pending P url) [Suc i..<Suc i + n]"
    unfolding split by simp_all
  show ?case
    using Suc.IH [OF rest] by (simp add: poll_pending [OF first])
qed

lemma poll_returns_not_all_pending:
  assumes "poll P E cfg oid url k tr = Some y"
  shows "\<exists>j\<ge>k. \<not> pending P url j"
  apply (rule poll.raw_induct
    [where Pa = "\<lambda>x y. \<exists>j\<ge>snd (fst x).
                    \<not> pending (fst (fst (fst (fst (fst (fst x)))))) (snd (fst (fst x))) j",
     simplified, OF _ assms])
  subgoal premises prems for f P E cfg oid url k tr y
  proof (cases "pending P url k")
    case False
    then show ?thesis by blast
  next
    case True
    then have "f P E cfg oid url (Suc k) (tr @ [StatusFetched url, Slept (poll_interval_s cfg)])
                 = Some y"
      using prems(2)
      by (auto simp: pending_def reported_def terminal_def
               split: sum.splits option.splits if_splits)
    from prems(1) [OF this] obtain j where "Suc k \<le> j" "\<not> pending P url j" by blast
    then show ?thesis by (metis Suc_leD)
  qed
  done

lemma poll_not_pending:
  assumes "\<not> pending P url k"
  shows "\<exists>r. poll P E cfg oid url k tr = Some (tr @ [StatusFetched url], r)"
proof (cases "get_status P url k")
  case (Inl e)
  then show ?thesis by (subst poll.simps) simp
next
  case (Inr stat)
  show ?thesis
  proof (cases "ok stat")
    case False
    with Inr show ?thesis by (subst poll.simps) simp
  next
    case True
    show ?thesis
    proof (cases "json stat")
      case None
      with Inr True show ?thesis by (subst poll.simps) simp
    next
      case (Some s)
      with Inr True assms have "terminal (state s)"
        by (simp add: pending_def reported_def)
      with Inr True Some show ?thesis
        by (subst poll.simps) (auto simp: terminal_def)
    qed
  qed
qed

lemma polling_events_first: "\<exists>more. polling_events url cfg n = StatusFetched url # more"
  by (cases n) (simp_all add: polling_events_def)

lemma poll_returns_events:
  assumes "poll P E cfg oid url k tr = Some y"
  shows "\<exists>n. fst y = tr @ polling_events url cfg n"
proof -
  from poll_returns_not_all_pending [OF assms]
  obtain j where j: "k \<le> j \<and> \<not> pending P url j" by blast
  define j0 where "j0 = (LEAST j. k \<le> j \<and> \<not> pending P url j)"
  have j0: "k \<le> j0 \<and> \<not> pending P url j0"
    unfolding j0_def using j by (rule LeastI)
  have before: "pending P url i" if "k \<le> i" "i < j0" for i
    using that not_less_Least [of i "\<lambda>j. k \<le> j \<and> \<not> pending P url j"]
    unfolding j0_def by blast
  have "list_all (pending P url) [k..<k + (j0 - k)]"
    using before j0 by (simp add: list_all_iff)
  from poll_skips_pending [OF this, of E cfg oid tr]
  have run: "poll P E cfg oid url k tr
               = poll P E cfg oid url j0
                   (tr @ concat (replicate (j0 - k) [StatusFetched url, Slept (poll_interval_s cfg)]))"
    using j0 by simp
  from poll_not_pending [of P url j0 E cfg oid] j0 obtain r where
    "poll P E cfg oid url j0
        (tr @ concat (replicate (j0 - k) [StatusFetched url, Slept (poll_interval_s cfg)]))
       = Some ((tr @ concat (replicate (j0 - k) [StatusFetched url, Slept (poll_interval_s cfg)]))
                 @ [StatusFetched url], r)"
    by blast
  with run assms have "fst y = tr @ polling_events url cfg (j0 - k)"
    by (simp add: polling_events_def)
  then show ?thesis ..
qed

text \<open>
  C4: when the fetches before the \<open>k\<close>-th report states other than \<^verbatim>\<open>success\<close> and
  \<^verbatim>\<open>failed\<close> and the \<open>k\<close>-th reports one of the two, the loop makes exactly
  \<open>k + 1\<close> fetches and exits there: with the status document on \<^verbatim>\<open>success\<close>, with
  an error whose message carries the whole status document on \<^verbatim>\<open>failed\<close>. When
  every fetch reports another state, the loop never ends.
\<close>

theorem poll_exits_on_first_terminal_state:
  "(list_all (pending P url) [0..<k] \<and> reported P url k = Some s \<and> terminal (state s)
      \<longrightarrow> poll P E cfg oid url 0 tr
            = Some (tr @ polling_events url cfg k,
                    if state s = Some ''success'' then Inr s
                    else Inl (RuntimeError
                           (''Order '' @ oid @ '' failed. Response: '' @ pretty E s))))
   \<and> ((\<forall>j. pending P url j) \<longrightarrow> poll P E cfg oid url 0 tr = None)"
proof (intro conjI impI)
  assume h: "list_all (pending P url) [0..<k] \<and> reported P url k = Some s \<and> terminal (state s)"
  then have "list_all (pending P url) [0..<0 + k]" by simp
  from poll_skips_pending [OF this]
  have "poll P E cfg oid url 0 tr
          = poll P E cfg oid url k
              (tr @ concat (replicate k [StatusFetched url, Slept (poll_interval_s cfg)]))"
    by simp
  also have "\<dots> = Some ((tr @ concat (replicate k [StatusFetched url, Slept (poll_interval_s cfg)]))
                          @ [StatusFetched url],
                        if state s = Some ''success'' then Inr s
                        else Inl (RuntimeError
                               (''Order '' @ oid @ '' failed. Response: '' @ pretty E s)))"
    using h by (intro poll_terminal) simp_all
  finally show "poll P E cfg oid url 0 tr
            = Some (tr @ polling_events url cfg k,
                    if state s = Some ''success'' then Inr s
                    else Inl (RuntimeError
                           (''Order '' @ oid @ '' failed. Response: '' @ pretty E s)))"
    by (simp add: polling_events_def)
next
  assume all: "\<forall>j. pending P url j"
  show "poll P E cfg oid url 0 tr = None"
  proof (cases "poll P E cfg oid url 0 tr")
    case None
    then show ?thesis .
  next
    case (Some y)
    from poll_returns_not_all_pending [OF this] all show ?thesis by blast
  qed
qed

theorem poll_exits_on_first_terminal_state_witness:
  "list_all (pending mock_provider ''https://orders/order_1'') [0..<2]
   \<and> reported mock_provider ''https://orders/order_1'' 2 = Some (mock_status 2)
   \<and> terminal (state (mock_status 2))
   \<and> poll mock_provider mock_env mock_config ''order_1'' ''https://orders/order_1'' 0 []
       = Some ([StatusFetched ''https://orders/order_1'', Slept 30,
                StatusFetched ''https://orders/order_1'', Slept 30,
                StatusFetched ''https://orders/order_1''],
               Inr (mock_status 2))
   \<and> list_all (pending failing_provider ''https://orders/order_1'') [0..<1]
   \<and> poll failing_provider mock_env mock_config ''order_1'' ''https://orders/order_1'' 0 []
       = Some ([StatusFetched ''https://orders/order_1'', Slept 30,
                StatusFetched ''https://orders/order_1''],
               Inl (RuntimeError ''Order order_1 failed. Response: {state: failed}''))
   \<and> (\<forall>j. pending stuck_provider ''https://orders/order_1'' j)
   \<and> poll stuck_provider mock_env mock_config ''order_1'' ''https://orders/order_1'' 0 [] = None"
proof -
  let ?u = "''https://orders/order_1''"
  let ?failed = "\<lparr> state = Some ''failed'', status_links = None \<rparr>"
  have p2: "list_all (pending mock_provider ?u) [0..<2]" by code_simp
  have r2: "reported mock_provider ?u 2 = Some (mock_status 2)" by code_simp
  have t2: "terminal (state (mock_status 2))" by code_simp
  have p1: "list_all (pending failing_provider ?u) [0..<1]" by code_simp
  have r1: "reported failing_provider ?u 1 = Some ?failed" by code_simp
  have t1: "terminal (state ?failed)" by code_simp
  have stuck: "\<forall>j. pending stuck_provider ?u j"
    by (simp add: pending_def reported_def terminal_def stuck_provider_def ok_def)
  have i30: "poll_interval_s mock_config = 30"
    by (simp add: mock_config_def config_of_def)
  have s2: "state (mock_status 2) = Some ''success''" by (simp add: mock_status_def)
  have a: "poll mock_provider mock_env mock_config ''order_1'' ?u 0 []
             = Some ([] @ polling_events ?u mock_config 2, Inr (mock_status 2))"
    using poll_exits_on_first_terminal_state
        [of mock_provider ?u 2 "mock_status 2" mock_env mock_config "''order_1''" "[]"]
      p2 r2 t2 s2 by simp
  have b: "poll failing_provider mock_env mock_config ''order_1'' ?u 0 []
             = Some ([] @ polling_events ?u mock_config 1,
                     Inl (RuntimeError (''Order '' @ ''order_1'' @ '' failed. Response: ''
                            @ pretty mock_env ?failed)))"
    using poll_exits_on_first_terminal_state
        [of failing_provider ?u 1 ?failed mock_env mock_config "''order_1''" "[]"]
      p1 r1 t1 by simp
  have c: "poll stuck_provider mock_env mock_config ''order_1'' ?u 0 [] = None"
    using poll_exits_on_first_terminal_state
        [of stuck_provider ?u 0 ?failed mock_env mock_config "''order_1''" "[]"]
      stuck by blast
  have e2: "polling_events ?u mock_config 2
              = [StatusFetched ?u, Slept 30, StatusFetched ?u, Slept 30, StatusFetched ?u]"
    by (simp add: polling_events_def i30 numeral_2_eq_2)
  have e1: "polling_events ?u mock_config (Suc 0) = [StatusFetched ?u, Slept 30, StatusFetched ?u]"
    by (simp add: polling_events_def i30)
  have pr: "pretty mock_env ?failed = ''{state: failed}''"
    by (simp add: mock_env_def)
  show ?thesis
    using p2 r2 t2 p1 stuck a b c by (simp add: e1 e2 pr)
qed

subsection \<open>Order lifecycle: packaging\<close>

lemma concat_nonempty_chunks: "concat (filter (\<lambda>b. b \<noteq> []) cs) = concat cs"
  by (induction cs) simp_all

lemma zip_writestr_ok: "entry_name_ok nm \<Longrightarrow> zip_writestr nm data = Inr (nm, data)"
proof -
  assume ok: "entry_name_ok nm"
  then have tw: "takeWhile (\<lambda>c. c \<noteq> CHR 0x00) nm = nm"
    by (auto simp: entry_name_ok_def takeWhile_eq_all_conv)
  show ?thesis
    unfolding zip_writestr_def Let_def tw using ok by (simp add: entry_name_ok_def)
qed


lemma fetch_result_ok:
  assumes "download_ok P E r" and "entry_name_ok (path_name (suggested_name idx r))"
  shows "fetch_result P E idx r = Inr (path_name (suggested_name idx r), fetched_bytes P r)"
proof -
  from assms(1) obtain f where f: "get_file P (location r) = Inr f"
    and st: "file_status f < 400 \<or> 600 \<le> file_status f"
    and cl: "py_int E (case content_length f of None \<Rightarrow> ''0'' | Some h \<Rightarrow> h) \<noteq> None"
    by (auto simp: download_ok_def split: sum.splits)
  from cl obtain n where n: "py_int E (case content_length f of None \<Rightarrow> ''0'' | Some h \<Rightarrow> h) = Some n"
    by blast
  have w: "zip_writestr (path_name (suggested_name idx r)) (concat (chunks f))
             = Inr (path_name (suggested_name idx r), concat (chunks f))"
    by (rule zip_writestr_ok [OF assms(2)])
  have nm: "(case result_name r of None \<Rightarrow> ''result_'' @ str_of_nat idx | Some nm \<Rightarrow> nm)
              = suggested_name idx r"
    by (simp add: suggested_name_def)
  show ?thesis
    using st by (auto simp: fetch_result_def Let_def f n nm w fetched_bytes_def concat_nonempty_chunks)
qed


lemma length_expected_entries: "length (expected_entries P idx rs) = length rs"
  by (simp add: expected_entries_def)

lemma nth_expected_entries:
  "i < length rs
     \<Longrightarrow> expected_entries P idx rs ! i
           = (path_name (suggested_name (idx + i) (rs ! i)), fetched_bytes P (rs ! i))"
  by (simp add: expected_entries_def)

lemma expected_entries_Cons:
  "expected_entries P idx (r # rs)
     = (path_name (suggested_name idx r), fetched_bytes P r) # expected_entries P (Suc idx) rs"
proof -
  have "[idx..<idx + length (r # rs)] = idx # [Suc idx..<Suc idx + length rs]"
    by (subst upt_conv_Cons) simp_all
  then show ?thesis by (simp add: expected_entries_def)
qed

lemma download_results_ok:
  "list_all (download_ok P E) rs \<Longrightarrow> names_ok idx rs
     \<Longrightarrow> download_results P E idx rs
           = (map (\<lambda>r. FileFetched (location r)) rs, Inr (expected_entries P idx rs))"
proof (induction rs arbitrary: idx)
  case Nil
  show ?case by (simp add: expected_entries_def)
next
  case (Cons r rs)
  then have r: "download_ok P E r" and rs: "list_all (download_ok P E) rs"
    and nm: "entry_name_ok (path_name (suggested_name idx r))" and nms: "names_ok (Suc idx) rs"
    by simp_all
  show ?case
    using Cons.IH [OF rs nms]
    by (simp add: fetch_result_ok [OF r nm] expected_entries_Cons)
qed


lemma split_slash_no_slash:
  "CHR ''/'' \<notin> set s \<Longrightarrow> split_slash cur s = [rev cur @ s]"
  by (induction s arbitrary: cur) auto

lemma split_slash_last:
  "CHR ''/'' \<notin> set base \<Longrightarrow> \<exists>front. split_slash cur (dir @ CHR ''/'' # base) = front @ [base]"
proof (induction dir arbitrary: cur)
  case Nil
  then show ?case by (simp add: split_slash_no_slash)
next
  case (Cons c dir)
  from Cons.IH [OF Cons.prems] show ?case
    by (cases "c = CHR ''/''") (simp_all, metis append_Cons)
qed

text \<open>
  \<open>path_name\<close> strips the directory components: of a path that ends in a file name, it
  is the text after the last slash.
\<close>

lemma path_name_strips_directories:
  assumes "CHR ''/'' \<notin> set base" and "base \<noteq> []" and "base \<noteq> ''.''"
  shows "path_name (dir @ CHR ''/'' # base) = base" and "path_name base = base"
proof -
  from split_slash_last [OF assms(1)] obtain front where
    "split_slash [] (dir @ CHR ''/'' # base) = front @ [base]" by blast
  then show "path_name (dir @ CHR ''/'' # base) = base"
    using assms by (simp add: path_name_def)
  show "path_name base = base"
    using assms by (simp add: path_name_def split_slash_no_slash)
qed












text \<open>
  C5, as the claim states it, fails: a completed order whose one result file is named
  \<^verbatim>\<open>.\<close> and whose download succeeds yields no archive, for nothing is left of the name
  once the directories are stripped and the archive writer raises on the empty name; and
  a result file named \<^verbatim>\<open>x\<close>, NUL, \<^verbatim>\<open>y\<close> is stored under the name \<^verbatim>\<open>x\<close>, not
  under its stripped name.
\<close>

theorem archive_writer_refuses_empty_name:
  "results_of \<lparr> state = Some ''success'',
                status_links = Some \<lparr> results = Some (one_result ''.'') \<rparr> \<rparr> = one_result ''.''
   \<and> length (one_result ''.'') = 1
   \<and> list_all (download_ok dot_provider mock_env) (one_result ''.'')
   \<and> place_order_and_download dot_provider mock_env mock_config
        ''scene_1'' ''PSScene'' aoi_square ''visual'' ''AOI_001_001''
       = Some ([OrderPosted (orders_url mock_config)
                  (order_request ''scene_1'' ''PSScene'' aoi_square ''visual'' ''AOI_001_001''),
                StatusFetched ''https://orders/order_1'',
                FileFetched (Some ''https://files/a'')],
               Inl (IndexError ''string index out of range''))
   \<and> list_all (download_ok nul_provider mock_env) (one_result [CHR ''x'', CHR 0x00, CHR ''y''])
   \<and> path_name [CHR ''x'', CHR 0x00, CHR ''y''] = [CHR ''x'', CHR 0x00, CHR ''y'']
   \<and> place_order_and_download nul_provider mock_env mock_config
        ''scene_1'' ''PSScene'' aoi_square ''visual'' ''AOI_001_001''
       = Some ([OrderPosted (orders_url mock_config)
                  (order_request ''scene_1'' ''PSScene'' aoi_square ''visual'' ''AOI_001_001''),
                StatusFetched ''https://orders/order_1'',
                FileFetched (Some ''https://files/a''),
                ZipSaved ''downloads/AOI_001_001_bundle.zip'' [(''x'', ''abcdef'')]],
               Inr (''downloads/AOI_001_001_bundle.zip'', [(''x'', ''abcdef'')]))"
  by code_simp

text \<open>
  C5, amended: an order that is accepted and completes with K result descriptors
  (K \<ge> 1) whose downloads all succeed and whose entry names are names the archive writer
  takes as they are (not empty once the directories are stripped, without a NUL
  character, of at most 65535 bytes) yields an archive of exactly K entries, in the order
  of the descriptors: the entry of the descriptor at the 1-based position i holds the
  bytes fetched from its location, under its suggested name with the directories stripped
  (\<^verbatim>\<open>Path(name).name\<close>, which for a name that ends in a file name is the text after
  the last slash).
\<close>

theorem archive_has_one_entry_per_result:
  assumes "post_order P (orders_url cfg) (order_request item_id item_ty aoi bundle order_name)
             = Inr resp"
    and "status_code resp = 202"
    and "json resp = Some order"
    and "order_id order = Some oid"
    and "order_links order = Some links"
    and "link_self links = Some url"
    and "poll P E cfg oid url 0
           [OrderPosted (orders_url cfg) (order_request item_id item_ty aoi bundle order_name)]
           = Some (tr, Inr s)"
    and "results_of s = rs"
    and "rs \<noteq> []"
    and "list_all (download_ok P E) rs"
    and "names_ok 1 rs"
  shows "\<exists>entries.
           place_order_and_download P E cfg item_id item_ty aoi bundle order_name
             = Some (tr @ map (\<lambda>r. FileFetched (location r)) rs
                        @ [ZipSaved (zip_path cfg order_name) entries],
                     Inr (zip_path cfg order_name, entries))
         \<and> length entries = length rs
         \<and> (\<forall>i<length rs.
               entries ! i
                 = (path_name (suggested_name (i + 1) (rs ! i)), fetched_bytes P (rs ! i)))
         \<and> (\<forall>i<length rs. \<forall>dir base.
               suggested_name (i + 1) (rs ! i) = dir @ CHR ''/'' # base
                 \<and> CHR ''/'' \<notin> set base \<and> base \<noteq> [] \<and> base \<noteq> ''.''
               \<longrightarrow> fst (entries ! i) = base)"
proof -
  define entries where "entries = expected_entries P 1 rs"
  have dl: "download_results P E 1 rs = (map (\<lambda>r. FileFetched (location r)) rs, Inr entries)"
    unfolding entries_def by (rule download_results_ok [OF assms(10,11)])
  have run: "place_order_and_download P E cfg item_id item_ty aoi bundle order_name
             = Some (tr @ map (\<lambda>r. FileFetched (location r)) rs
                        @ [ZipSaved (zip_path cfg order_name) entries],
                     Inr (zip_path cfg order_name, entries))"
    using assms(1-9) dl by (simp add: place_order_and_download_def Let_def)
  have len: "length entries = length rs"
    unfolding entries_def by (rule length_expected_entries)
  have nth: "entries ! i = (path_name (suggested_name (i + 1) (rs ! i)), fetched_bytes P (rs ! i))"
    if "i < length rs" for i
    unfolding entries_def using nth_expected_entries [OF that, of P 1] by (simp add: add.commute)
  have stripped: "fst (entries ! i) = base"
    if "i < length rs" and "suggested_name (i + 1) (rs ! i) = dir @ CHR ''/'' # base"
      and "CHR ''/'' \<notin> set base" and "base \<noteq> []" and "base \<noteq> ''.''" for i dir base
    using nth [OF that(1)] path_name_strips_directories(1) [OF that(3,4,5), of dir] that(2)
    by simp
  from run len nth stripped show ?thesis by blast
qed

lemma list_of_two: "length xs = 2 \<Longrightarrow> xs = [xs ! 0, xs ! 1]"
  by (cases xs; cases "tl xs") auto

theorem archive_has_one_entry_per_result_witness:
  "results_of (mock_status 2) = mock_results
   \<and> mock_results \<noteq> []
   \<and> list_all (download_ok mock_provider mock_env) mock_results
   \<and> names_ok 1 mock_results
   \<and> place_order_and_download mock_provider mock_env mock_config
        ''scene_1'' ''PSScene'' aoi_square ''visual'' ''AOI_001_001''
       = Some ([OrderPosted (orders_url mock_config)
                  (order_request ''scene_1'' ''PSScene'' aoi_square ''visual'' ''AOI_001_001''),
                StatusFetched ''https://orders/order_1'', Slept 30,
                StatusFetched ''https://orders/order_1'', Slept 30,
                StatusFetched ''https://orders/order_1'',
                FileFetched (Some ''https://files/a''), FileFetched (Some ''https://files/b''),
                ZipSaved ''downloads/AOI_001_001_bundle.zip''
                  [(''scene_1_clip.tif'', ''abcdef''), (''result_2'', ''xyz'')]],
               Inr (''downloads/AOI_001_001_bundle.zip'',
                    [(''scene_1_clip.tif'', ''abcdef''), (''result_2'', ''xyz'')]))"
proof -
  let ?req = "order_request ''scene_1'' ''PSScene'' aoi_square ''visual'' ''AOI_001_001''"
  let ?links = "\<lparr> link_self = Some ''https://orders/order_1'' \<rparr>"
  let ?order = "\<lparr> order_id = Some ''order_1'', order_links = Some ?links \<rparr>"
  let ?resp = "\<lparr> status_code = 202, resp_text = [], json = Some ?order \<rparr>"
  let ?u = "''https://orders/order_1''"
  let ?tr = "[OrderPosted (orders_url mock_config) ?req,
              StatusFetched ?u, Slept 30, StatusFetched ?u, Slept 30, StatusFetched ?u]"
  have h1: "post_order mock_provider (orders_url mock_config) ?req = Inr ?resp"
    by (simp add: mock_provider_def)
  have h7: "poll mock_provider mock_env mock_config ''order_1'' ?u 0
              [OrderPosted (orders_url mock_config) ?req] = Some (?tr, Inr (mock_status 2))"
    by code_simp
  have h8: "results_of (mock_status 2) = mock_results" by code_simp
  have h9: "mock_results \<noteq> []" by (simp add: mock_results_def)
  have h10: "list_all (download_ok mock_provider mock_env) mock_results" by code_simp
  have h11: "names_ok 1 mock_results" by code_simp
  have h2: "status_code ?resp = 202" and h3: "json ?resp = Some ?order"
    and h4: "order_id ?order = Some ''order_1''" and h5: "order_links ?order = Some ?links"
    and h6: "link_self ?links = Some ?u"
    by simp_all
  from archive_has_one_entry_per_result [OF h1 h2 h3 h4 h5 h6 h7 h8 h9 h10 h11]
  obtain entries where
    run: "place_order_and_download mock_provider mock_env mock_config
            ''scene_1'' ''PSScene'' aoi_square ''visual'' ''AOI_001_001''
          = Some (?tr @ map (\<lambda>r. FileFetched (location r)) mock_results
                    @ [ZipSaved (zip_path mock_config ''AOI_001_001'') entries],
                  Inr (zip_path mock_config ''AOI_001_001'', entries))"
    and len: "length entries = length mock_results"
    and nth: "\<forall>i<length mock_results.
                entries ! i = (path_name (suggested_name (i + 1) (mock_results ! i)),
                               fetched_bytes mock_provider (mock_results ! i))"
    by auto
  have n2: "length mock_results = 2" by (simp add: mock_results_def)
  have e0: "(path_name (suggested_name (0 + 1) (mock_results ! 0)),
             fetched_bytes mock_provider (mock_results ! 0)) = (''scene_1_clip.tif'', ''abcdef'')"
    by code_simp
  have e1: "(path_name (suggested_name (1 + 1) (mock_results ! 1)),
             fetched_bytes mock_provider (mock_results ! 1)) = (''result_2'', ''xyz'')"
    by code_simp
  have "entries ! 0 = (''scene_1_clip.tif'', ''abcdef'')" "entries ! 1 = (''result_2'', ''xyz'')"
    using nth n2 e0 e1 by (metis pos2, metis one_less_numeral_iff semiring_norm(76))
  with list_of_two [of entries] len n2
  have entries: "entries = [(''scene_1_clip.tif'', ''abcdef''), (''result_2'', ''xyz'')]"
    by simp
  have fetched: "map (\<lambda>r. FileFetched (location r)) mock_results
                   = [FileFetched (Some ''https://files/a''), FileFetched (Some ''https://files/b'')]"
    by (simp add: mock_results_def)
  have zp: "zip_path mock_config ''AOI_001_001'' = ''downloads/AOI_001_001_bundle.zip''"
    by code_simp
  show ?thesis
    using h8 h9 h10 h11 run by (simp add: entries fetched zp)
qed



subsection \<open>Order lifecycle: submission\<close>

text \<open>
  C8: when the provider answers the submission with a status other than 202, other 2xx
  codes included, the order fails with an error and nothing is fetched: the only event is
  the submission. When it answers 202, with the order id and its self link, the order goes
  on to polling: the call either polls for ever or returns after at least one fetch of
  the self link.
\<close>

theorem order_submission_needs_202:
  assumes "post_order P (orders_url cfg) (order_request item_id item_ty aoi bundle order_name)
             = Inr resp"
  shows "(status_code resp \<noteq> 202
            \<longrightarrow> place_order_and_download P E cfg item_id item_ty aoi bundle order_name
                  = Some ([OrderPosted (orders_url cfg)
                             (order_request item_id item_ty aoi bundle order_name)],
                          Inl (RuntimeError (''Order failed: '' @ str_of_nat (status_code resp)
                                 @ '' '' @ resp_text resp))))
       \<and> (status_code resp = 202 \<and> json resp = Some order \<and> order_id order = Some oid
            \<and> order_links order = Some links \<and> link_self links = Some url
            \<longrightarrow> (case place_order_and_download P E cfg item_id item_ty aoi bundle order_name of
                    None \<Rightarrow>
                      poll P E cfg oid url 0
                        [OrderPosted (orders_url cfg)
                           (order_request item_id item_ty aoi bundle order_name)] = None
                  | Some (tr, res) \<Rightarrow>
                      take 2 tr
                        = [OrderPosted (orders_url cfg)
                             (order_request item_id item_ty aoi bundle order_name),
                           StatusFetched url]))"
proof (intro conjI impI)
  assume "status_code resp \<noteq> 202"
  with assms
  show "place_order_and_download P E cfg item_id item_ty aoi bundle order_name
          = Some ([OrderPosted (orders_url cfg)
                     (order_request item_id item_ty aoi bundle order_name)],
                  Inl (RuntimeError (''Order failed: '' @ str_of_nat (status_code resp)
                         @ '' '' @ resp_text resp)))"
    by (simp add: place_order_and_download_def Let_def)
next
  let ?posted = "[OrderPosted (orders_url cfg) (order_request item_id item_ty aoi bundle order_name)]"
  assume acc: "status_code resp = 202 \<and> json resp = Some order \<and> order_id order = Some oid
                 \<and> order_links order = Some links \<and> link_self links = Some url"
  show "case place_order_and_download P E cfg item_id item_ty aoi bundle order_name of
          None \<Rightarrow>
            poll P E cfg oid url 0
              [OrderPosted (orders_url cfg)
                 (order_request item_id item_ty aoi bundle order_name)] = None
        | Some (tr, res) \<Rightarrow>
            take 2 tr
              = [OrderPosted (orders_url cfg)
                   (order_request item_id item_ty aoi bundle order_name),
                 StatusFetched url]"
  proof (cases "poll P E cfg oid url 0 ?posted")
    case None
    with assms acc show ?thesis
      by (simp add: place_order_and_download_def Let_def)
  next
    case (Some y)
    from poll_returns_events [OF Some] polling_events_first
    obtain more where more: "fst y = ?posted @ StatusFetched url # more"
      by metis
    obtain tr r where y: "y = (tr, r)" by (cases y)
    from more y have tr: "take 2 tr = ?posted @ [StatusFetched url]" by simp
    from more y have "2 \<le> length tr" by simp
    then have longer: "take 2 (tr @ xs) = take 2 tr" for xs by simp
    obtain tr2 dl where dl: "download_results P E 1 (results_of (projr r)) = (tr2, dl)"
      by (cases "download_results P E 1 (results_of (projr r))")
    have "place_order_and_download P E cfg item_id item_ty aoi bundle order_name
            = Some (tr, Inl e) \<or>
          (\<exists>xs res. place_order_and_download P E cfg item_id item_ty aoi bundle order_name
            = Some (tr @ xs, res))" for e
      using assms acc Some y dl
      by (cases r; cases dl; cases "results_of (projr r) = []")
         (auto simp: place_order_and_download_def Let_def)
    then obtain xs res where
      "place_order_and_download P E cfg item_id item_ty aoi bundle order_name = Some (tr @ xs, res)"
      by (metis append_Nil2)
    then show ?thesis using tr longer by simp
  qed
qed

theorem order_submission_needs_202_witness:
  "place_order_and_download rejecting_provider mock_env mock_config
      ''scene_1'' ''PSScene'' aoi_square ''visual'' ''AOI_001_001''
     = Some ([OrderPosted (orders_url mock_config)
                (order_request ''scene_1'' ''PSScene'' aoi_square ''visual'' ''AOI_001_001'')],
             Inl (RuntimeError ''Order failed: 200 OK''))
   \<and> (case place_order_and_download mock_provider mock_env mock_config
              ''scene_1'' ''PSScene'' aoi_square ''visual'' ''AOI_001_001'' of
         None \<Rightarrow> False
       | Some (tr, res) \<Rightarrow>
           take 2 tr
             = [OrderPosted (orders_url mock_config)
                  (order_request ''scene_1'' ''PSScene'' aoi_square ''visual'' ''AOI_001_001''),
                StatusFetched ''https://orders/order_1''])"
proof -
  let ?req = "order_request ''scene_1'' ''PSScene'' aoi_square ''visual'' ''AOI_001_001''"
  let ?links = "\<lparr> link_self = Some ''https://orders/order_1'' \<rparr>"
  let ?order = "\<lparr> order_id = Some ''order_1'', order_links = Some ?links \<rparr>"
  let ?no = "\<lparr> status_code = 200, resp_text = ''OK'', json = Some ?order \<rparr>"
  let ?yes = "\<lparr> status_code = 202, resp_text = [], json = Some ?order \<rparr>"
  have no: "post_order rejecting_provider (orders_url mock_config) ?req = Inr ?no"
    by (simp add: rejecting_provider_def)
  have yes: "post_order mock_provider (orders_url mock_config) ?req = Inr ?yes"
    by (simp add: mock_provider_def)
  have code: "str_of_nat 200 = ''200''" by code_simp
  have ends: "place_order_and_download mock_provider mock_env mock_config
                ''scene_1'' ''PSScene'' aoi_square ''visual'' ''AOI_001_001'' \<noteq> None"
    by code_simp
  from order_submission_needs_202 [OF no, where E = mock_env]
  have a: "place_order_and_download rejecting_provider mock_env mock_config
      ''scene_1'' ''PSScene'' aoi_square ''visual'' ''AOI_001_001''
     = Some ([OrderPosted (orders_url mock_config) ?req],
             Inl (RuntimeError ''Order failed: 200 OK''))"
    by (simp add: code)
  from order_submission_needs_202
         [OF yes, where order = ?order and oid = "''order_1''" and links = ?links
            and url = "''https://orders/order_1''" and E = mock_env] ends
  have b: "case place_order_and_download mock_provider mock_env mock_config
              ''scene_1'' ''PSScene'' aoi_square ''visual'' ''AOI_001_001'' of
         None \<Rightarrow> False
       | Some (tr, res) \<Rightarrow>
           take 2 tr = [OrderPosted (orders_url mock_config) ?req,
                        StatusFetched ''https://orders/order_1'']"
    by (auto split: option.splits)
  from a b show ?thesis by blast
qed

subsection \<open>Run orchestrator\<close>





lemma main_loop_append:
  "main_loop L P E cfg params a n idx (xs @ ys) st
     = (case main_loop L P E cfg params a n idx xs st of
          None \<Rightarrow> None
        | Some (tr, Inl e) \<Rightarrow> Some (tr, Inl e)
        | Some (tr, Inr st') \<Rightarrow>
            (case main_loop L P E cfg params a n (idx + length xs) ys st' of
               None \<Rightarrow> None
             | Some (tr', r) \<Rightarrow> Some (tr @ tr', r)))"
  by (induction xs arbitrary: idx st)
     (auto split: option.splits sum.splits prod.splits)

lemma process_aoi_invalid:
  "validate_geometry L row = Inl e \<Longrightarrow> process_aoi L P E cfg params a n idx row st = Some ([], Inl e)"
  by (simp add: process_aoi_def)

text \<open>
  C2, as the claim states it, fails: on a batch whose first record has an empty geometry
  and whose second record is a valid square, the run ends with the error of the first
  record and the second record is never searched.
\<close>

theorem empty_geometry_aborts_batch:
  "validate_geometry grid_lib [] = Inl (ValueError ''AOI geometry is empty.'')
   \<and> validate_geometry grid_lib aoi_square = Inr aoi_square
   \<and> main grid_lib mock_provider mock_env mock_args ''key'' [[], aoi_square]
       = Some ([], Inl (ValueError ''AOI geometry is empty.''))"
  by code_simp

text \<open>
  C2, amended: when geometry normalization fails on one record, the error is not caught:
  the run ends at that record with the error of the normalization. The records before it
  have been processed, no later record is processed, and the reference list is not
  written.
\<close>

theorem geometry_failure_ends_run:
  assumes "strip key \<noteq> []"
    and "main_loop L P E (config_of (strip key) a) (params_of a) a
           (length (before @ bad # later)) 0 before ([], 0) = Some (tr, Inr st)"
    and "validate_geometry L bad = Inl e"
  shows "main L P E a key (before @ bad # later) = Some (tr, Inl e)"
  using assms
  by (simp add: main_def Let_def main_loop_append process_aoi_invalid)

theorem geometry_failure_ends_run_witness:
  "strip ''key'' \<noteq> []
   \<and> validate_geometry grid_lib [] = Inl (ValueError ''AOI geometry is empty.'')
   \<and> main grid_lib mock_provider mock_env search_args ''key'' [aoi_square, [], aoi_apart]
       = Some ([SearchPosted (data_url mock_config @ ''/quick-search'')
                  (item_types (params_of search_args),
                   build_planet_filters aoi_square (params_of search_args))],
               Inl (ValueError ''AOI geometry is empty.''))"
proof -
  have h1: "strip ''key'' \<noteq> []" by code_simp
  have k: "strip ''key'' = ''key''" by code_simp
  have h2: "main_loop grid_lib mock_provider mock_env (config_of (strip ''key'') search_args)
              (params_of search_args) search_args (length ([aoi_square] @ [] # [aoi_apart])) 0
              [aoi_square] ([], 0)
            = Some ([SearchPosted (data_url mock_config @ ''/quick-search'')
                       (item_types (params_of search_args),
                        build_planet_filters aoi_square (params_of search_args))],
                    Inr ([reference_line grid_lib ''scene_1'' ''PSScene'' aoi_square], 0))"
    by code_simp
  have h3: "validate_geometry grid_lib [] = Inl (ValueError ''AOI geometry is empty.'')"
    by code_simp
  from geometry_failure_ends_run [OF h1 h2 h3] h1 h3 show ?thesis by simp
qed

end
